theory Spec2Isabelle
  imports Complex_Main "HOL-Library.AList"
begin

section \<open>Numbers, time and text\<close>

text \<open>
  The detector computes with numpy/pandas floating-point numbers. They are modelled by the
  reals extended with the three special values that the source's arithmetic can produce:
  \<open>NaN\<close> (pandas' missing value, also the result of \<open>0/0\<close>), \<open>PInf\<close> and \<open>NInf\<close>
  (a non-zero number divided by zero). Arithmetic on finite values is exact: rounding,
  overflow and signed zeros are not represented.
\<close>

datatype npfloat = NaN | NInf | Fin real | PInf

fun fneg :: "npfloat \<Rightarrow> npfloat" where
  "fneg NaN = NaN"
| "fneg NInf = PInf"
| "fneg PInf = NInf"
| "fneg (Fin a) = Fin (- a)"

fun fadd :: "npfloat \<Rightarrow> npfloat \<Rightarrow> npfloat" where
  "fadd (Fin a) (Fin b) = Fin (a + b)"
| "fadd NaN _ = NaN"
| "fadd _ NaN = NaN"
| "fadd PInf NInf = NaN"
| "fadd NInf PInf = NaN"
| "fadd PInf _ = PInf"
| "fadd _ PInf = PInf"
| "fadd NInf _ = NInf"
| "fadd _ NInf = NInf"

definition fsub :: "npfloat \<Rightarrow> npfloat \<Rightarrow> npfloat" where
  "fsub a b = fadd a (fneg b)"

definition inf_of_sign :: "real \<Rightarrow> npfloat" where
  "inf_of_sign a = (if a = 0 then NaN else if 0 < a then PInf else NInf)"

fun fmul :: "npfloat \<Rightarrow> npfloat \<Rightarrow> npfloat" where
  "fmul (Fin a) (Fin b) = Fin (a * b)"
| "fmul NaN _ = NaN"
| "fmul _ NaN = NaN"
| "fmul PInf PInf = PInf"
| "fmul NInf NInf = PInf"
| "fmul PInf NInf = NInf"
| "fmul NInf PInf = NInf"
| "fmul PInf (Fin b) = inf_of_sign b"
| "fmul (Fin a) PInf = inf_of_sign a"
| "fmul NInf (Fin b) = inf_of_sign (- b)"
| "fmul (Fin a) NInf = inf_of_sign (- a)"

fun fdiv :: "npfloat \<Rightarrow> npfloat \<Rightarrow> npfloat" where
  "fdiv (Fin a) (Fin b) = (if b = 0 then inf_of_sign a else Fin (a / b))"
| "fdiv NaN _ = NaN"
| "fdiv _ NaN = NaN"
| "fdiv (Fin a) PInf = Fin 0"
| "fdiv (Fin a) NInf = Fin 0"
| "fdiv PInf (Fin b) = (if 0 \<le> b then PInf else NInf)"
| "fdiv NInf (Fin b) = (if 0 \<le> b then NInf else PInf)"
| "fdiv PInf _ = NaN"
| "fdiv NInf _ = NaN"

fun fabs :: "npfloat \<Rightarrow> npfloat" where
  "fabs NaN = NaN"
| "fabs NInf = PInf"
| "fabs PInf = PInf"
| "fabs (Fin a) = Fin \<bar>a\<bar>"

fun fsqrt :: "npfloat \<Rightarrow> npfloat" where
  "fsqrt NaN = NaN"
| "fsqrt NInf = NaN"
| "fsqrt PInf = PInf"
| "fsqrt (Fin a) = (if a < 0 then NaN else Fin (sqrt a))"

text \<open>Comparisons with \<open>NaN\<close> are false, as in the source's arithmetic.\<close>

fun fgt :: "npfloat \<Rightarrow> npfloat \<Rightarrow> bool" where
  "fgt (Fin a) (Fin b) = (b < a)"
| "fgt NaN _ = False"
| "fgt _ NaN = False"
| "fgt PInf PInf = False"
| "fgt PInf _ = True"
| "fgt NInf _ = False"
| "fgt (Fin a) NInf = True"
| "fgt (Fin a) PInf = False"

definition flt :: "npfloat \<Rightarrow> npfloat \<Rightarrow> bool" where
  "flt a b = fgt b a"

definition isna :: "npfloat \<Rightarrow> bool" where
  "isna x = (x = NaN)"

text \<open>
  Python's built-in \<open>max(a, b)\<close> and \<open>min(a, b)\<close> keep the first argument unless the
  second one is strictly greater (smaller); \<open>max(xs, default=d)\<close> scans the list the same
  way and returns \<open>d\<close> on the empty list.
\<close>

definition py_max2 :: "npfloat \<Rightarrow> npfloat \<Rightarrow> npfloat" where
  "py_max2 a b = (if fgt b a then b else a)"

definition py_min2 :: "npfloat \<Rightarrow> npfloat \<Rightarrow> npfloat" where
  "py_min2 a b = (if flt b a then b else a)"

fun py_max_from :: "npfloat \<Rightarrow> npfloat list \<Rightarrow> npfloat" where
  "py_max_from m [] = m"
| "py_max_from m (x # xs) = py_max_from (py_max2 m x) xs"

definition py_max_default :: "npfloat list \<Rightarrow> npfloat \<Rightarrow> npfloat" where
  "py_max_default xs d = (case xs of [] \<Rightarrow> d | x # rest \<Rightarrow> py_max_from x rest)"

text \<open>Python's slice \<open>xs[i:]\<close>; a negative \<open>i\<close> counts from the end.\<close>

definition py_slice_from :: "int \<Rightarrow> 'a list \<Rightarrow> 'a list" where
  "py_slice_from i xs =
     (if i < 0 then drop (nat (int (length xs) + i)) xs else drop (nat i) xs)"

text \<open>
  A naive local \<open>datetime\<close> is a number of microseconds on the local time line, a
  \<open>date\<close> is a day number, and \<open>timedelta(minutes=m)\<close> is \<open>m\<close> minutes in microseconds.
  Every call of \<open>datetime.now()\<close> is an input of the operation that makes it.
\<close>

type_synonym datetime = int
type_synonym date = int

definition timedelta_minutes :: "int \<Rightarrow> int" where
  "timedelta_minutes m = m * 60000000"

definition date_of :: "datetime \<Rightarrow> date" where
  "date_of t = t div 86400000000"

section \<open>Data model\<close>

type_synonym symbol = string

text \<open>One OHLCV bar; a bar series (a pandas data frame) is a list of bars, oldest first.\<close>

record bar =
  bar_time :: datetime
  bar_open :: real
  bar_high :: real
  bar_low :: real
  bar_close :: real
  bar_volume :: real

type_synonym frame = "bar list"

text \<open>The columns \<open>data['close']\<close>, \<open>data['volume']\<close>, \<open>data['high']\<close> and
  \<open>data['low']\<close> of a bar series.\<close>

definition col_close :: "frame \<Rightarrow> npfloat list" where
  "col_close data = map (\<lambda>b. Fin (bar_close b)) data"

definition col_volume :: "frame \<Rightarrow> npfloat list" where
  "col_volume data = map (\<lambda>b. Fin (bar_volume b)) data"

definition col_high :: "frame \<Rightarrow> npfloat list" where
  "col_high data = map (\<lambda>b. Fin (bar_high b)) data"

definition col_low :: "frame \<Rightarrow> npfloat list" where
  "col_low data = map (\<lambda>b. Fin (bar_low b)) data"

text \<open>A raw alert, as the evaluators build it. The correlation alert has no symbol key.\<close>

record alert =
  alert_type :: string
  alert_symbol :: "symbol option"
  alert_timestamp :: datetime
  severity :: npfloat
  details :: "(string \<times> npfloat) list"

text \<open>A formatted message: literal text and numbers printed with two decimals.\<close>

datatype msg_part = Text string | Fixed2 npfloat

record composite_event =
  title :: string
  message :: "msg_part list"
  event_severity :: npfloat
  event_timestamp :: datetime
  event_details :: "alert list"

text \<open>
  A notification callback is a function of the composite event. It is a closure of the
  caller, so it may also read the detector's gate state at the moment it runs: the model
  passes that state as \<open>gate_view\<close>. It returns or raises an \<open>Exception\<close>.
\<close>

record gate_view =
  view_count :: int
  view_last_alert :: "datetime option"
  view_events :: "composite_event list"

datatype cb_outcome = Returned | Raised string

type_synonym callback = "gate_view \<Rightarrow> composite_event \<Rightarrow> cb_outcome"

text \<open>One invocation of a callback: its position in the registration list, what it could
  observe, the event it received and how it ended.\<close>

record invocation =
  inv_index :: nat
  inv_view :: gate_view
  inv_event :: composite_event
  inv_outcome :: cb_outcome

record hist_stats =
  mean_returns :: npfloat
  std_returns :: npfloat
  mean_volume :: npfloat
  std_volume :: npfloat

text \<open>A labelled square table of numbers (a pandas data frame of correlations).\<close>

record matrix =
  labels :: "string list"
  cell :: "string \<Rightarrow> string \<Rightarrow> npfloat"

text \<open>
  The detector object. \<open>data_pipeline\<close> records whether a pipeline is attached; what the
  pipeline answers is an input of each operation. \<open>correlation_matrix\<close> is \<open>None\<close> while
  the attribute does not exist. A Python dictionary is an association list in insertion
  order, written with \<open>AList.update\<close> and read with \<open>map_of\<close>. The percentile tables
  of the historical statistics are read by no operation and are left out.
\<close>

record detector =
  volatility_threshold :: real
  volume_threshold :: real
  correlation_threshold :: real
  check_interval :: int
  watch_list :: "symbol list"
  historical_lookback_days :: int
  max_alerts_per_day :: int
  alert_cooldown_minutes :: int
  is_monitoring :: bool
  last_check_time :: "datetime option"
  last_alert_time :: "datetime option"
  alert_count_today :: int
  reset_date :: date
  data_pipeline :: bool
  notification_callbacks :: "callback list"
  detected_events :: "composite_event list"
  max_event_history :: int
  historical_data :: "(symbol \<times> frame) list"
  historical_stats :: "(symbol \<times> hist_stats) list"
  correlation_matrix :: "matrix option"

section \<open>Series arithmetic of pandas\<close>

text \<open>
  \<open>pct_change()\<close> with pandas' default \<open>fill_method='pad'\<close>: missing values are first
  replaced by the last value before them, then the first entry is missing and every
  later one is \<open>x / previous - 1\<close>.
\<close>

fun ffill_from :: "npfloat \<Rightarrow> npfloat list \<Rightarrow> npfloat list" where
  "ffill_from prev [] = []"
| "ffill_from prev (x # xs) =
     (if isna x then prev # ffill_from prev xs else x # ffill_from x xs)"

definition ffill :: "npfloat list \<Rightarrow> npfloat list" where
  "ffill xs = ffill_from NaN xs"

fun pct_steps :: "npfloat \<Rightarrow> npfloat list \<Rightarrow> npfloat list" where
  "pct_steps prev [] = []"
| "pct_steps prev (x # xs) = fsub (fdiv x prev) (Fin 1) # pct_steps x xs"

definition pct_change :: "npfloat list \<Rightarrow> npfloat list" where
  "pct_change xs = (case ffill xs of [] \<Rightarrow> [] | x # rest \<Rightarrow> NaN # pct_steps x rest)"

definition dropna :: "npfloat list \<Rightarrow> npfloat list" where
  "dropna xs = filter (\<lambda>x. \<not> isna x) xs"

fun fsum :: "npfloat list \<Rightarrow> npfloat" where
  "fsum [] = Fin 0"
| "fsum (x # xs) = fadd x (fsum xs)"

text \<open>\<open>Series.mean()\<close> and \<open>Series.std()\<close> skip missing values; the standard deviation is
  the sample one (\<open>ddof = 1\<close>) and is missing for fewer than two values.\<close>

definition series_mean :: "npfloat list \<Rightarrow> npfloat" where
  "series_mean xs =
     (let v = dropna xs
      in if v = [] then NaN else fdiv (fsum v) (Fin (real (length v))))"

definition series_std :: "npfloat list \<Rightarrow> npfloat" where
  "series_std xs =
     (let v = dropna xs; n = length v
      in if n \<le> 1 then NaN
         else
           let avg = fdiv (fsum v) (Fin (real n));
               sqr = map (\<lambda>x. fmul (fsub avg x) (fsub avg x)) v
           in fsqrt (fdiv (fsum sqr) (Fin (real (n - 1)))))"

section \<open>Severity scorer\<close>

text \<open>\<open>_calculate_severity\<close>; an alert type other than the three known ones scores 0.\<close>

definition calculate_severity :: "detector \<Rightarrow> string \<Rightarrow> npfloat \<Rightarrow> npfloat" where
  "calculate_severity s alert_ty val =
     (if alert_ty = ''volatility'' then
        py_min2 (Fin 1) (py_max2 (Fin 0)
          (fdiv (fsub val (Fin (volatility_threshold s))) (Fin (2 * volatility_threshold s))))
      else if alert_ty = ''volume'' then
        py_min2 (Fin 1) (py_max2 (Fin 0)
          (fdiv (fsub val (Fin (volume_threshold s))) (Fin (3 * volume_threshold s))))
      else if alert_ty = ''correlation'' then
        (let threshold = 1 - correlation_threshold s
         in py_min2 (Fin 1) (py_max2 (Fin 0)
              (fdiv (fsub val (Fin threshold)) (Fin (1 - threshold)))))
      else Fin 0)"

text \<open>The clipping of the specification: \<open>clip(x, 0, 1)\<close>.\<close>

definition spec_clip :: "npfloat \<Rightarrow> npfloat" where
  "spec_clip x = (if flt x (Fin 0) then Fin 0 else if fgt x (Fin 1) then Fin 1 else x)"

definition spec_clip_real :: "real \<Rightarrow> real" where
  "spec_clip_real x = (if x < 0 then 0 else if 1 < x then 1 else x)"

section \<open>Signal evaluators\<close>

text \<open>
  The evaluators loop over \<open>current_data.items()\<close>. Each symbol's body runs inside a
  \<open>try\<close>; with bars of finite numbers only \<open>iloc[-1]\<close> on an empty series can raise, and
  that symbol is then skipped. \<open>now\<close> is the clock reading put into the alerts'
  timestamps.
\<close>

definition volatility_ratio_of :: "frame \<Rightarrow> hist_stats \<Rightarrow> npfloat" where
  "volatility_ratio_of data st =
     (let current_returns = dropna (pct_change (col_close data));
          current_volatility = fmul (series_std current_returns) (Fin (sqrt 24));
          historical_volatility = fmul (std_returns st) (Fin (sqrt 252))
      in fdiv current_volatility historical_volatility)"

definition volatility_alerts_for :: "detector \<Rightarrow> datetime \<Rightarrow> symbol \<Rightarrow> frame \<Rightarrow> alert list" where
  "volatility_alerts_for s now sy data =
     (let current_returns = dropna (pct_change (col_close data));
          current_volatility = fmul (series_std current_returns) (Fin (sqrt 24))
      in case map_of (historical_stats s) sy of
           None \<Rightarrow> []
         | Some st \<Rightarrow>
             let historical_volatility = fmul (std_returns st) (Fin (sqrt 252));
                 volatility_ratio = fdiv current_volatility historical_volatility
             in if fgt volatility_ratio (Fin (volatility_threshold s)) then
                  [\<lparr>alert_type = ''volatility'', alert_symbol = Some sy,
                    alert_timestamp = now,
                    severity = calculate_severity s ''volatility'' volatility_ratio,
                    details = [(''current_volatility'', current_volatility),
                               (''historical_volatility'', historical_volatility),
                               (''volatility_ratio'', volatility_ratio),
                               (''threshold'', Fin (volatility_threshold s))]\<rparr>]
                else [])"

fun check_volatility :: "detector \<Rightarrow> datetime \<Rightarrow> (symbol \<times> frame) list \<Rightarrow> alert list" where
  "check_volatility s now [] = []"
| "check_volatility s now ((sy, data) # rest) =
     volatility_alerts_for s now sy data @ check_volatility s now rest"

definition volume_ratio_of :: "frame \<Rightarrow> hist_stats \<Rightarrow> npfloat" where
  "volume_ratio_of data st = fdiv (last (col_volume data)) (mean_volume st)"

definition volume_alerts_for :: "detector \<Rightarrow> datetime \<Rightarrow> symbol \<Rightarrow> frame \<Rightarrow> alert list" where
  "volume_alerts_for s now sy data =
     (if data = [] then []
      else
        let current_volume = last (col_volume data)
        in case map_of (historical_stats s) sy of
             None \<Rightarrow> []
           | Some st \<Rightarrow>
               let historical_avg_volume = mean_volume st;
                   volume_ratio = fdiv current_volume historical_avg_volume
               in if fgt volume_ratio (Fin (volume_threshold s)) then
                    [\<lparr>alert_type = ''volume'', alert_symbol = Some sy,
                      alert_timestamp = now,
                      severity = calculate_severity s ''volume'' volume_ratio,
                      details = [(''current_volume'', current_volume),
                                 (''historical_avg_volume'', historical_avg_volume),
                                 (''volume_ratio'', volume_ratio),
                                 (''threshold'', Fin (volume_threshold s))]\<rparr>]
                  else [])"

fun check_volume :: "detector \<Rightarrow> datetime \<Rightarrow> (symbol \<times> frame) list \<Rightarrow> alert list" where
  "check_volume s now [] = []"
| "check_volume s now ((sy, data) # rest) =
     volume_alerts_for s now sy data @ check_volume s now rest"

subsection \<open>Correlation tables\<close>

text \<open>
  A pandas data frame of numbers: a row index (timestamps) and named columns, each as
  long as the index. The frame built from a dictionary of series has the sorted union of
  their timestamps as index (bar series have increasing, distinct timestamps) and a
  missing value where a series has no entry.
\<close>

record dataframe =
  df_index :: "datetime list"
  df_columns :: "(string \<times> npfloat list) list"

type_synonym series = "(datetime \<times> npfloat) list"

definition series_close :: "frame \<Rightarrow> series" where
  "series_close data = map (\<lambda>b. (bar_time b, Fin (bar_close b))) data"

definition clean_symbol :: "symbol \<Rightarrow> string" where
  "clean_symbol sy =
     map (\<lambda>c. if c = CHR '':'' then CHR ''_'' else c)
       (map (\<lambda>c. if c = CHR ''/'' then CHR ''_'' else c) sy)"

fun price_data_of :: "(symbol \<times> frame) list \<Rightarrow> (string \<times> series) list \<Rightarrow> (string \<times> series) list" where
  "price_data_of [] price_data = price_data"
| "price_data_of ((sy, data) # rest) price_data =
     price_data_of rest (AList.update (clean_symbol sy) (series_close data) price_data)"

definition series_at :: "series \<Rightarrow> datetime \<Rightarrow> npfloat" where
  "series_at ser t = (case map_of ser t of None \<Rightarrow> NaN | Some x \<Rightarrow> x)"

definition DataFrame :: "(string \<times> series) list \<Rightarrow> dataframe" where
  "DataFrame price_data =
     (let idx = sort (remdups (concat (map (\<lambda>(name, ser). map fst ser) price_data)))
      in \<lparr>df_index = idx,
          df_columns = map (\<lambda>(name, ser). (name, map (series_at ser) idx)) price_data\<rparr>)"

definition df_pct_change :: "dataframe \<Rightarrow> dataframe" where
  "df_pct_change df =
     df\<lparr>df_columns := map (\<lambda>(name, col). (name, pct_change col)) (df_columns df)\<rparr>"

text \<open>\<open>DataFrame.dropna()\<close> drops every row that has a missing value.\<close>

definition complete_rows :: "dataframe \<Rightarrow> nat list" where
  "complete_rows df =
     filter (\<lambda>i. list_all (\<lambda>(name, col). \<not> isna (col ! i)) (df_columns df))
       [0 ..< length (df_index df)]"

definition df_dropna :: "dataframe \<Rightarrow> dataframe" where
  "df_dropna df =
     (let keep = complete_rows df
      in \<lparr>df_index = map (\<lambda>i. df_index df ! i) keep,
          df_columns = map (\<lambda>(name, col). (name, map (\<lambda>i. col ! i) keep)) (df_columns df)\<rparr>)"

text \<open>
  \<open>DataFrame.corr()\<close>: Pearson's coefficient of each pair of columns over the rows where
  both are finite; it is missing without such a row and when a column is constant there.
\<close>

fun finite_pairs :: "npfloat list \<Rightarrow> npfloat list \<Rightarrow> (real \<times> real) list" where
  "finite_pairs (Fin x # xs) (Fin y # ys) = (x, y) # finite_pairs xs ys"
| "finite_pairs (x # xs) (y # ys) = finite_pairs xs ys"
| "finite_pairs xs ys = []"

definition pearson :: "npfloat list \<Rightarrow> npfloat list \<Rightarrow> npfloat" where
  "pearson xs ys =
     (let ps = finite_pairs xs ys; n = real (length ps)
      in if ps = [] then NaN
         else
           let mx = sum_list (map fst ps) / n;
               my = sum_list (map snd ps) / n;
               ssx = sum_list (map (\<lambda>(x, y). (x - mx) * (x - mx)) ps);
               ssy = sum_list (map (\<lambda>(x, y). (y - my) * (y - my)) ps);
               cov = sum_list (map (\<lambda>(x, y). (x - mx) * (y - my)) ps);
               divisor = sqrt (ssx * ssy)
           in if divisor \<noteq> 0 then Fin (cov / divisor) else NaN)"

definition df_corr :: "dataframe \<Rightarrow> matrix" where
  "df_corr df =
     \<lparr>labels = map fst (df_columns df),
      cell = (\<lambda>r c. case (map_of (df_columns df) r, map_of (df_columns df) c) of
                       (Some x, Some y) \<Rightarrow> pearson x y
                     | _ \<Rightarrow> NaN)\<rparr>"

text \<open>
  The difference of two tables is taken label by label over the union of their labels
  and is missing where either table lacks the label. \<open>mean().mean()\<close> is the mean of the
  column means, both skipping missing values.
\<close>

definition matrix_sub :: "matrix \<Rightarrow> matrix \<Rightarrow> matrix" where
  "matrix_sub a b =
     \<lparr>labels = labels a @ filter (\<lambda>l. l \<notin> set (labels a)) (labels b),
      cell = (\<lambda>r c. if r \<in> set (labels a) \<and> c \<in> set (labels a)
                         \<and> r \<in> set (labels b) \<and> c \<in> set (labels b)
                      then fsub (cell a r c) (cell b r c) else NaN)\<rparr>"

definition matrix_abs :: "matrix \<Rightarrow> matrix" where
  "matrix_abs a = \<lparr>labels = labels a, cell = (\<lambda>r c. fabs (cell a r c))\<rparr>"

definition mean_mean :: "matrix \<Rightarrow> npfloat" where
  "mean_mean a =
     series_mean (map (\<lambda>c. series_mean (map (\<lambda>r. cell a r c) (labels a))) (labels a))"

definition current_correlation :: "(symbol \<times> frame) list \<Rightarrow> matrix" where
  "current_correlation current_data =
     (let price_data = price_data_of current_data [];
          price_df = DataFrame price_data;
          returns_df = df_dropna (df_pct_change price_df)
      in df_corr returns_df)"

definition correlation_change_of :: "(symbol \<times> frame) list \<Rightarrow> matrix \<Rightarrow> npfloat" where
  "correlation_change_of current_data baseline =
     mean_mean (matrix_abs (matrix_sub (current_correlation current_data) baseline))"

text \<open>\<open>_check_correlation_breakdown\<close>. Nothing in its \<open>try\<close> block raises on bar series
  of finite numbers with distinct timestamps.\<close>

definition check_correlation_breakdown ::
  "detector \<Rightarrow> datetime \<Rightarrow> (symbol \<times> frame) list \<Rightarrow> alert list" where
  "check_correlation_breakdown s now current_data =
     (if length current_data < 2 \<or> correlation_matrix s = None then []
      else
        let current_corr = current_correlation current_data
        in case correlation_matrix s of
             None \<Rightarrow> []
           | Some baseline \<Rightarrow>
               let correlation_change = mean_mean (matrix_abs (matrix_sub current_corr baseline))
               in if fgt correlation_change (Fin (1 - correlation_threshold s)) then
                    [\<lparr>alert_type = ''correlation'', alert_symbol = None,
                      alert_timestamp = now,
                      severity = calculate_severity s ''correlation'' correlation_change,
                      details = [(''correlation_change'', correlation_change),
                                 (''threshold'', Fin (1 - correlation_threshold s))]\<rparr>]
                  else [])"

section \<open>The alert gate\<close>

text \<open>The three readings of the clock that \<open>_handle_alerts\<close> makes, in program order:
  the cooldown test, the event's timestamp and the new \<open>last_alert_time\<close>.\<close>

record gate_clock =
  check_now :: datetime
  event_now :: datetime
  alert_now :: datetime

definition gate_view_of :: "detector \<Rightarrow> gate_view" where
  "gate_view_of s =
     \<lparr>view_count = alert_count_today s, view_last_alert = last_alert_time s,
      view_events = detected_events s\<rparr>"

text \<open>The loop over the callbacks: each is called inside its own \<open>try\<close>, an exception is
  logged and the loop goes on.\<close>

fun run_callbacks :: "gate_view \<Rightarrow> composite_event \<Rightarrow> nat \<Rightarrow> callback list \<Rightarrow> invocation list" where
  "run_callbacks v ev i [] = []"
| "run_callbacks v ev i (cb # cbs) =
     (case cb v ev of
        Returned \<Rightarrow>
          \<lparr>inv_index = i, inv_view = v, inv_event = ev, inv_outcome = Returned\<rparr>
            # run_callbacks v ev (Suc i) cbs
      | Raised e \<Rightarrow>
          \<lparr>inv_index = i, inv_view = v, inv_event = ev, inv_outcome = Raised e\<rparr>
            # run_callbacks v ev (Suc i) cbs)"

definition combined_alert :: "datetime \<Rightarrow> alert list \<Rightarrow> composite_event" where
  "combined_alert now alerts =
     (let max_severity = py_max_default (map severity alerts) (Fin 0)
      in \<lparr>title = ''Black Swan Event erkannt'',
          message = [Text (''Ungew'' @ [CHR 0xF6] @ ''hnliche Marktaktivit'' @ [CHR 0xE4]
                           @ ''t mit Schweregrad ''),
                     Fixed2 max_severity, Text '' erkannt''],
          event_severity = max_severity,
          event_timestamp = now,
          event_details = alerts\<rparr>)"

text \<open>
  \<open>_handle_alerts\<close>. The result is the detector after the call, the composite event that
  was built (if any) and the callback invocations, in order.
\<close>

definition handle_alerts ::
  "detector \<Rightarrow> gate_clock \<Rightarrow> alert list \<Rightarrow> detector \<times> composite_event option \<times> invocation list" where
  "handle_alerts s clk alerts =
     (if max_alerts_per_day s \<le> alert_count_today s then (s, None, [])
      else if (case last_alert_time s of
                 None \<Rightarrow> False
               | Some t \<Rightarrow> check_now clk < t + timedelta_minutes (alert_cooldown_minutes s))
      then (s, None, [])
      else
        let ev = combined_alert (event_now clk) alerts;
            appended = detected_events s @ [ev];
            events = (if max_event_history s < int (length appended)
                      then py_slice_from (- max_event_history s) appended
                      else appended);
            s' = s\<lparr>detected_events := events,
                   last_alert_time := Some (alert_now clk),
                   alert_count_today := alert_count_today s + 1\<rparr>
        in (s', Some ev, run_callbacks (gate_view_of s') ev 0 (notification_callbacks s')))"

text \<open>The gate lets a tick through: neither test of \<open>_handle_alerts\<close> suppresses.\<close>

definition gate_open :: "detector \<Rightarrow> gate_clock \<Rightarrow> bool" where
  "gate_open s clk \<longleftrightarrow>
     alert_count_today s < max_alerts_per_day s
     \<and> (case last_alert_time s of None \<Rightarrow> True
         | Some t \<Rightarrow> t + timedelta_minutes (alert_cooldown_minutes s) \<le> check_now clk)"


section \<open>Construction and registration\<close>

text \<open>The configuration dictionary: a key may be absent.\<close>

record config =
  cfg_volatility_threshold :: "real option"
  cfg_volume_threshold :: "real option"
  cfg_correlation_threshold :: "real option"
  cfg_check_interval :: "int option"
  cfg_watch_list :: "symbol list option"
  cfg_historical_lookback_days :: "int option"
  cfg_max_alerts_per_day :: "int option"
  cfg_alert_cooldown_minutes :: "int option"

definition empty_config :: config where
  "empty_config =
     \<lparr>cfg_volatility_threshold = None, cfg_volume_threshold = None,
      cfg_correlation_threshold = None, cfg_check_interval = None, cfg_watch_list = None,
      cfg_historical_lookback_days = None, cfg_max_alerts_per_day = None,
      cfg_alert_cooldown_minutes = None\<rparr>"

definition get_or :: "'a option \<Rightarrow> 'a \<Rightarrow> 'a" where
  "get_or v d = (case v of None \<Rightarrow> d | Some x \<Rightarrow> x)"

text \<open>\<open>__init__\<close>; \<open>now\<close> is the clock reading that initialises \<open>reset_date\<close>.\<close>

definition init :: "config \<Rightarrow> datetime \<Rightarrow> detector" where
  "init cfg now =
     \<lparr>volatility_threshold = get_or (cfg_volatility_threshold cfg) 3.5,
      volume_threshold = get_or (cfg_volume_threshold cfg) 5.0,
      correlation_threshold = get_or (cfg_correlation_threshold cfg) 0.85,
      check_interval = get_or (cfg_check_interval cfg) 300,
      watch_list = get_or (cfg_watch_list cfg)
        [''BTC/USDT:USDT'', ''ETH/USDT:USDT'', ''BNB/USDT:USDT'', ''SOL/USDT:USDT''],
      historical_lookback_days = get_or (cfg_historical_lookback_days cfg) 365,
      max_alerts_per_day = get_or (cfg_max_alerts_per_day cfg) 3,
      alert_cooldown_minutes = get_or (cfg_alert_cooldown_minutes cfg) 60,
      is_monitoring = False,
      last_check_time = None,
      last_alert_time = None,
      alert_count_today = 0,
      reset_date = date_of now,
      data_pipeline = False,
      notification_callbacks = [],
      detected_events = [],
      max_event_history = 100,
      historical_data = [],
      historical_stats = [],
      correlation_matrix = None\<rparr>"


definition register_notification_callback :: "detector \<Rightarrow> callback \<Rightarrow> detector" where
  "register_notification_callback s cb =
     s\<lparr>notification_callbacks := notification_callbacks s @ [cb]\<rparr>"

section \<open>The data pipeline and the historical baseline\<close>

text \<open>
  What the attached pipeline answers to one request: no frame, a frame, or an exception.
  The pipeline is asked with the base symbol (the part before \<open>':'\<close>); its answers at
  the time of an operation are an input of that operation.
\<close>

datatype fetch_result = FetchNone | FetchFrame frame | FetchRaises string

type_synonym pipeline = "string \<Rightarrow> fetch_result"

definition base_symbol :: "symbol \<Rightarrow> string" where
  "base_symbol sy =
     (if CHR '':'' \<in> set sy then takeWhile (\<lambda>c. c \<noteq> CHR '':'') sy else sy)"





section \<open>The evaluation tick and the monitoring loop\<close>

text \<open>The clock readings of one loop iteration, in program order: the date test, the
  alerts' timestamps, the gate and \<open>last_check_time\<close>.\<close>

record tick_clock =
  date_now :: datetime
  eval_now :: datetime
  gate_clk :: gate_clock
  checked_now :: datetime

text \<open>The loop of \<open>_check_market_conditions\<close> that fills \<open>current_data\<close>; \<open>None\<close> when a
  request raised.\<close>

fun collect_current_data ::
  "pipeline \<Rightarrow> symbol list \<Rightarrow> (symbol \<times> frame) list \<Rightarrow> (symbol \<times> frame) list option" where
  "collect_current_data fetch [] current_data = Some current_data"
| "collect_current_data fetch (sy # rest) current_data =
     (case fetch (base_symbol sy) of
        FetchRaises e \<Rightarrow> None
      | FetchNone \<Rightarrow> collect_current_data fetch rest current_data
      | FetchFrame data \<Rightarrow>
          if data \<noteq> [] then collect_current_data fetch rest (AList.update sy data current_data)
          else collect_current_data fetch rest current_data)"

definition tick_alerts :: "detector \<Rightarrow> datetime \<Rightarrow> (symbol \<times> frame) list \<Rightarrow> alert list" where
  "tick_alerts s now current_data =
     check_volatility s now current_data @ check_volume s now current_data
       @ check_correlation_breakdown s now current_data"

definition check_market_conditions ::
  "detector \<Rightarrow> tick_clock \<Rightarrow> pipeline
     \<Rightarrow> detector \<times> composite_event option \<times> invocation list" where
  "check_market_conditions s clk fetch =
     (if \<not> data_pipeline s then (s, None, [])
      else
        case collect_current_data fetch (watch_list s) [] of
          None \<Rightarrow> (s, None, [])
        | Some current_data \<Rightarrow>
            let alerts = tick_alerts s (eval_now clk) current_data
            in if alerts \<noteq> [] then handle_alerts s (gate_clk clk) alerts else (s, None, []))"

text \<open>The midnight reset at the head of the loop body.\<close>

definition reset_if_new_day :: "detector \<Rightarrow> datetime \<Rightarrow> detector" where
  "reset_if_new_day s now =
     (let current_date = date_of now
      in if reset_date s < current_date
         then s\<lparr>alert_count_today := 0, reset_date := current_date\<rparr>
         else s)"

text \<open>
  One pass through the body of \<open>_monitoring_loop\<close>. No statement of the body raises (the
  tick catches its own exceptions), so the handler with the 60 second pause is not
  entered; the last component is the pause before the next pass.
\<close>

definition monitoring_iteration ::
  "detector \<Rightarrow> tick_clock \<Rightarrow> pipeline
     \<Rightarrow> detector \<times> composite_event option \<times> invocation list \<times> int" where
  "monitoring_iteration s clk fetch =
     (let s1 = reset_if_new_day s (date_now clk)
      in case check_market_conditions s1 clk fetch of
           (s2, ev, calls) \<Rightarrow>
             (s2\<lparr>last_check_time := Some (checked_now clk)\<rparr>, ev, calls, check_interval s2))"



section \<open>Manual check\<close>

record check_result =
  res_symbol :: symbol
  current_price :: npfloat
  price_change_24h :: "npfloat option"
  atr :: npfloat
  volatility :: npfloat
  res_alerts :: "alert list"
  alert_count :: nat
  res_timestamp :: datetime
  notification_suppressed :: "bool option"
  suppression_reason :: "string option"

datatype manual_result = CheckError string | CheckSuccess check_result

text \<open>The clock readings of \<open>manual_check\<close>: the alerts' timestamps, the result's
  timestamp and the cooldown test.\<close>

record manual_clock =
  m_eval_now :: datetime
  m_stamp_now :: datetime
  m_gate_now :: datetime

text \<open>\<open>Series.shift()\<close>, the row-wise maximum that skips missing values, and the last
  value of \<open>rolling(window=n).mean()\<close>, which is missing unless the last \<open>n\<close> rows are
  all present.\<close>

definition shift1 :: "npfloat list \<Rightarrow> npfloat list" where
  "shift1 xs = (if xs = [] then [] else NaN # butlast xs)"

definition nanmax :: "npfloat list \<Rightarrow> npfloat" where
  "nanmax xs = (case dropna xs of [] \<Rightarrow> NaN | x # rest \<Rightarrow> py_max_from x rest)"

definition rolling_mean_last :: "nat \<Rightarrow> npfloat list \<Rightarrow> npfloat" where
  "rolling_mean_last n xs =
     (if length xs < n then NaN
      else
        let w = drop (length xs - n) xs
        in if length (dropna w) < n then NaN else fdiv (fsum w) (Fin (real n)))"

definition average_true_range :: "frame \<Rightarrow> npfloat" where
  "average_true_range data =
     (let high_low = map2 fsub (col_high data) (col_low data);
          high_close = map fabs (map2 fsub (col_high data) (shift1 (col_close data)));
          low_close = map fabs (map2 fsub (col_low data) (shift1 (col_close data)));
          true_range = map (\<lambda>(a, b, c). nanmax [a, b, c])
                         (zip high_low (zip high_close low_close))
      in rolling_mean_last 14 true_range)"

text \<open>
  \<open>manual_check\<close>. It returns a dictionary; the model also returns the detector after
  the call and the callback invocations made, to state what the call leaves alone.
\<close>

definition manual_check ::
  "detector \<Rightarrow> manual_clock \<Rightarrow> pipeline \<Rightarrow> symbol
     \<Rightarrow> detector \<times> invocation list \<times> manual_result" where
  "manual_check s clk fetch sy =
     (if \<not> data_pipeline s
      then (s, [], CheckError (''Keine Datenpipeline verf'' @ [CHR 0xFC] @ ''gbar''))
      else
        case fetch (base_symbol sy) of
          FetchRaises e \<Rightarrow> (s, [], CheckError (''Fehler: '' @ e))
        | FetchNone \<Rightarrow>
            (s, [], CheckError (''Keine Daten f'' @ [CHR 0xFC] @ ''r '' @ sy
                                 @ '' verf'' @ [CHR 0xFC] @ ''gbar''))
        | FetchFrame data \<Rightarrow>
            if data = []
            then (s, [], CheckError (''Keine Daten f'' @ [CHR 0xFC] @ ''r '' @ sy
                                      @ '' verf'' @ [CHR 0xFC] @ ''gbar''))
            else
              let current_data = [(sy, data)];
                  volatility_alerts = check_volatility s (m_eval_now clk) current_data;
                  volume_alerts = check_volume s (m_eval_now clk) current_data;
                  alerts = volatility_alerts @ volume_alerts;
                  closes = col_close data;
                  result =
                    \<lparr>res_symbol = sy,
                     current_price = last closes,
                     price_change_24h =
                       (if 24 \<le> length data
                        then Some (fmul (fsub (fdiv (last closes)
                                                 (closes ! (length closes - 24))) (Fin 1))
                                     (Fin 100))
                        else None),
                     atr = average_true_range data,
                     volatility = fmul (series_std (pct_change closes)) (Fin (sqrt 24)),
                     res_alerts = alerts,
                     alert_count = length alerts,
                     res_timestamp = m_stamp_now clk,
                     notification_suppressed = None,
                     suppression_reason = None\<rparr>
              in if alerts \<noteq> []
                    \<and> (max_alerts_per_day s \<le> alert_count_today s
                       \<or> (case last_alert_time s of
                             None \<Rightarrow> False
                           | Some t \<Rightarrow>
                               m_gate_now clk
                                 < t + timedelta_minutes (alert_cooldown_minutes s)))
                 then (s, [],
                       CheckSuccess
                         (result\<lparr>notification_suppressed := Some True,
                                 suppression_reason :=
                                   Some (if max_alerts_per_day s \<le> alert_count_today s
                                         then ''daily_limit'' else ''cooldown'')\<rparr>))
                 else (s, [], CheckSuccess result))"

section \<open>Reachable states\<close>


section \<open>Sample inputs\<close>

definition sample_alert :: alert where
  "sample_alert =
     \<lparr>alert_type = ''volume'', alert_symbol = Some ''BTC/USDT'', alert_timestamp = 5,
      severity = Fin 0.5, details = []\<rparr>"

text \<open>A tick whose three gate readings start at \<open>t\<close> and are one microsecond apart.\<close>

definition clock_at :: "datetime \<Rightarrow> gate_clock" where
  "clock_at t = \<lparr>check_now = t, event_now = t + 1, alert_now = t + 2\<rparr>"

definition cb_ok :: callback where
  "cb_ok v ev = Returned"

definition cb_fail :: callback where
  "cb_fail v ev = Raised ''sink down''"

definition sample_detector :: detector where
  "sample_detector =
     register_notification_callback
       (register_notification_callback (init empty_config 0) cb_fail) cb_ok"

definition mk_bar :: "datetime \<Rightarrow> real \<Rightarrow> real \<Rightarrow> bar" where
  "mk_bar t c v =
     \<lparr>bar_time = t, bar_open = c, bar_high = c, bar_low = c, bar_close = c, bar_volume = v\<rparr>"

definition sample_frame :: frame where
  "sample_frame = [mk_bar 0 100 1, mk_bar 1 110 1, mk_bar 2 99 10]"

definition sample_stats :: hist_stats where
  "sample_stats =
     \<lparr>mean_returns = Fin 0, std_returns = Fin 0.01, mean_volume = Fin 1, std_volume = Fin 1\<rparr>"

definition watching_detector :: detector where
  "watching_detector =
     (init empty_config 0)\<lparr>data_pipeline := True, watch_list := [''BTC/USDT''],
        historical_stats := [(''BTC/USDT'', sample_stats)]\<rparr>"

definition sample_frame_b :: frame where
  "sample_frame_b = [mk_bar 0 100 1, mk_bar 1 90 1, mk_bar 2 99 1]"



definition sample_pipeline :: pipeline where
  "sample_pipeline b =
     (if b = ''BTC/USDT'' then FetchFrame sample_frame
      else if b = ''ETH/USDT'' then FetchFrame sample_frame_b
      else FetchNone)"



definition limit_detector :: detector where
  "limit_detector = watching_detector\<lparr>alert_count_today := 3\<rparr>"

definition manual_clock_at :: "datetime \<Rightarrow> manual_clock" where
  "manual_clock_at t = \<lparr>m_eval_now = t, m_stamp_now = t + 1, m_gate_now = t + 2\<rparr>"

definition tick_clock_at :: "datetime \<Rightarrow> tick_clock" where
  "tick_clock_at t =
     \<lparr>date_now = t, eval_now = t + 1, gate_clk = clock_at (t + 2), checked_now = t + 5\<rparr>"

text \<open>A detector constructed on day 1 that has dispatched twice and has no pipeline.\<close>

definition day1_detector :: detector where
  "day1_detector = (init empty_config 86400000000)\<lparr>alert_count_today := 2\<rparr>"

section \<open>Properties of the alert gate\<close>




lemma check_market_conditions_cases:
  "check_market_conditions s clk fetch = (s, None, [])
   \<or> (\<exists>alerts. alerts \<noteq> []
         \<and> check_market_conditions s clk fetch = handle_alerts s (gate_clk clk) alerts)"
  by (simp add: check_market_conditions_def Let_def split: option.splits) blast



subsection \<open>Dispatch\<close>

lemma fgt_irrefl: "\<not> fgt x x"
  by (cases x) auto

lemma fgt_trans: "fgt a b \<Longrightarrow> fgt b c \<Longrightarrow> fgt a c"
  by (cases a; cases b; cases c) auto

lemma fgt_total: "a \<noteq> NaN \<Longrightarrow> b \<noteq> NaN \<Longrightarrow> fgt a b \<or> a = b \<or> fgt b a"
  by (cases a; cases b) auto

lemma not_fgt_trans:
  "b \<noteq> NaN \<Longrightarrow> \<not> fgt a b \<Longrightarrow> \<not> fgt b c \<Longrightarrow> \<not> fgt a c"
  by (cases a; cases b; cases c) auto

lemma py_max2_cases: "py_max2 a b = a \<or> py_max2 a b = b"
  by (simp add: py_max2_def)

lemma py_max2_not_nan: "a \<noteq> NaN \<Longrightarrow> py_max2 a b \<noteq> NaN"
  by (cases a; cases b) (auto simp: py_max2_def)

lemma py_max_from_in: "py_max_from m xs \<in> set (m # xs)"
proof (induction xs arbitrary: m)
  case Nil
  then show ?case by simp
next
  case (Cons x xs)
  have "py_max_from (py_max2 m x) xs \<in> set (py_max2 m x # xs)" by (rule Cons.IH)
  then show ?case using py_max2_cases [of m x] by auto
qed

lemma py_max_from_ge_start: "m \<noteq> NaN \<Longrightarrow> \<not> fgt m (py_max_from m xs)"
proof (induction xs arbitrary: m)
  case Nil
  then show ?case by (simp add: fgt_irrefl)
next
  case (Cons x xs)
  have n: "py_max2 m x \<noteq> NaN" using Cons.prems by (rule py_max2_not_nan)
  have a: "\<not> fgt (py_max2 m x) (py_max_from (py_max2 m x) xs)" using n by (rule Cons.IH)
  have b: "\<not> fgt m (py_max2 m x)"
    by (cases m; cases x) (auto simp: py_max2_def)
  show ?case using not_fgt_trans [OF n b a] by simp
qed

lemma py_max_from_upper:
  "m \<noteq> NaN \<Longrightarrow> x \<in> set (m # xs) \<Longrightarrow> \<not> fgt x (py_max_from m xs)"
proof (induction xs arbitrary: m)
  case Nil
  then show ?case by (simp add: fgt_irrefl)
next
  case (Cons y ys)
  have n: "py_max2 m y \<noteq> NaN" using Cons.prems(1) by (rule py_max2_not_nan)
  consider "x = m" | "x = y" | "x \<in> set ys" using Cons.prems(2) by auto
  then show ?case
  proof cases
    case 1
    then show ?thesis using py_max_from_ge_start [OF Cons.prems(1), of "y # ys"] by simp
  next
    case 2
    have b: "\<not> fgt y (py_max2 m y)"
      by (cases m; cases y) (auto simp: py_max2_def)
    have a: "\<not> fgt (py_max2 m y) (py_max_from (py_max2 m y) ys)"
      using n by (rule py_max_from_ge_start)
    show ?thesis using not_fgt_trans [OF n b a] 2 by simp
  next
    case 3
    then have "x \<in> set (py_max2 m y # ys)" by simp
    then show ?thesis using Cons.IH [OF n] by simp
  qed
qed

lemma py_max_default_is_max:
  assumes "xs \<noteq> []" and "hd xs \<noteq> NaN"
  shows "py_max_default xs d \<in> set xs \<and> (\<forall>x\<in>set xs. \<not> fgt x (py_max_default xs d))"
proof -
  obtain m rest where c: "xs = m # rest" using assms(1) by (cases xs) auto
  have m: "m \<noteq> NaN" using assms(2) c by simp
  have e: "py_max_default xs d = py_max_from m rest" by (simp add: py_max_default_def c)
  have i: "py_max_from m rest \<in> set (m # rest)" by (rule py_max_from_in)
  have u: "\<forall>x\<in>set (m # rest). \<not> fgt x (py_max_from m rest)"
    using py_max_from_upper [OF m] by blast
  show ?thesis using e i u c by simp
qed

lemma run_callbacks_index: "map inv_index (run_callbacks v ev i cbs) = [i ..< i + length cbs]"
proof (induction cbs arbitrary: i)
  case Nil
  then show ?case by simp
next
  case (Cons cb cbs)
  show ?case
    by (cases "cb v ev") (simp_all add: Cons.IH upt_rec)
qed

lemma run_callbacks_outcome: "map inv_outcome (run_callbacks v ev i cbs) = map (\<lambda>cb. cb v ev) cbs"
proof (induction cbs arbitrary: i)
  case Nil
  then show ?case by simp
next
  case (Cons cb cbs)
  show ?case
    by (cases "cb v ev") (simp_all add: Cons.IH)
qed

lemma run_callbacks_event:
  "c \<in> set (run_callbacks v ev i cbs) \<Longrightarrow> inv_event c = ev \<and> inv_view c = v"
proof (induction cbs arbitrary: i)
  case Nil
  then show ?case by simp
next
  case (Cons cb cbs)
  show ?case
  proof (cases "cb v ev")
    case Returned
    then have "c = \<lparr>inv_index = i, inv_view = v, inv_event = ev, inv_outcome = Returned\<rparr>
        \<or> c \<in> set (run_callbacks v ev (Suc i) cbs)"
      using Cons.prems by simp
    then show ?thesis using Cons.IH by fastforce
  next
    case (Raised e)
    then have "c = \<lparr>inv_index = i, inv_view = v, inv_event = ev, inv_outcome = Raised e\<rparr>
        \<or> c \<in> set (run_callbacks v ev (Suc i) cbs)"
      using Cons.prems by simp
    then show ?thesis using Cons.IH by fastforce
  qed
qed

lemma run_callbacks_length: "length (run_callbacks v ev i cbs) = length cbs"
proof (induction cbs arbitrary: i)
  case Nil
  then show ?case by simp
next
  case (Cons cb cbs)
  show ?case
    by (cases "cb v ev") (simp_all add: Cons.IH)
qed

lemma handle_alerts_dispatch:
  assumes "gate_open s clk"
  shows "handle_alerts s clk alerts =
     (let ev = combined_alert (event_now clk) alerts;
          appended = detected_events s @ [ev];
          s' = s\<lparr>detected_events := (if max_event_history s < int (length appended)
                      then py_slice_from (- max_event_history s) appended
                      else appended),
                   last_alert_time := Some (alert_now clk),
                   alert_count_today := alert_count_today s + 1\<rparr>
      in (s', Some ev, run_callbacks (gate_view_of s') ev 0 (notification_callbacks s)))"
proof -
  have a: "\<not> max_alerts_per_day s \<le> alert_count_today s"
    using assms by (simp add: gate_open_def)
  have b: "\<not> (case last_alert_time s of None \<Rightarrow> False
               | Some t \<Rightarrow> check_now clk < t + timedelta_minutes (alert_cooldown_minutes s))"
    using assms by (simp add: gate_open_def split: option.splits)
  show ?thesis
    unfolding handle_alerts_def using a b by (simp add: Let_def)
qed


lemma bounded_append:
  "0 < m \<Longrightarrow> (if m < int (length xs) then py_slice_from (- m) xs else xs)
     = drop (length xs - nat m) xs"
  by (simp add: py_slice_from_def nat_diff_distrib')

text \<open>
  Claim C2. When the daily count is below \<open>max_alerts_per_day\<close> and no cooldown is
  running, a tick with raw alerts is dispatched: exactly one composite event is built, it
  carries the tick's alerts and its severity is the maximum of their severities, it is
  appended to the bounded history, \<open>last_alert_time\<close> becomes the clock reading,
  \<open>alert_count_today\<close> grows by one, and every registered callback is invoked once, in
  registration order, with that event, whatever the earlier callbacks did (returned or
  raised).
\<close>

theorem gate_dispatch:
  assumes "alert_count_today s < max_alerts_per_day s"
    and "last_alert_time s = None \<or>
         (\<exists>t. last_alert_time s = Some t
              \<and> t + timedelta_minutes (alert_cooldown_minutes s) \<le> check_now clk)"
    and "0 < max_event_history s"
    and "alerts \<noteq> []"
    and "\<forall>a\<in>set alerts. severity a \<noteq> NaN"
  shows "\<exists>s' ev calls. handle_alerts s clk alerts = (s', Some ev, calls)
     \<and> event_details ev = alerts
     \<and> event_severity ev \<in> severity ` set alerts
     \<and> (\<forall>a\<in>set alerts. \<not> fgt (severity a) (event_severity ev))
     \<and> detected_events s'
         = drop (length (detected_events s) + 1 - nat (max_event_history s))
             (detected_events s @ [ev])
     \<and> last_alert_time s' = Some (alert_now clk)
     \<and> alert_count_today s' = alert_count_today s + 1
     \<and> length calls = length (notification_callbacks s)
     \<and> map inv_index calls = [0 ..< length (notification_callbacks s)]
     \<and> (\<forall>c\<in>set calls. inv_event c = ev)
     \<and> map inv_outcome calls
         = map (\<lambda>cb. cb (gate_view_of s') ev) (notification_callbacks s)"
proof -
  have op: "gate_open s clk"
    using assms(1,2) by (auto simp: gate_open_def)
  define ev where "ev = combined_alert (event_now clk) alerts"
  define s' where "s' = s\<lparr>detected_events :=
        (if max_event_history s < int (length (detected_events s @ [ev]))
         then py_slice_from (- max_event_history s) (detected_events s @ [ev])
         else detected_events s @ [ev]),
      last_alert_time := Some (alert_now clk),
      alert_count_today := alert_count_today s + 1\<rparr>"
  define calls where "calls = run_callbacks (gate_view_of s') ev 0 (notification_callbacks s)"
  have h: "handle_alerts s clk alerts = (s', Some ev, calls)"
    using handle_alerts_dispatch [OF op, of alerts]
    by (simp add: Let_def ev_def s'_def calls_def)
  have sev: "event_severity ev = py_max_default (map severity alerts) (Fin 0)"
    by (simp add: ev_def combined_alert_def Let_def)
  have hdn: "hd (map severity alerts) \<noteq> NaN"
    using assms(4,5) by (cases alerts) auto
  have mx: "py_max_default (map severity alerts) (Fin 0) \<in> set (map severity alerts)
      \<and> (\<forall>x\<in>set (map severity alerts). \<not> fgt x (py_max_default (map severity alerts) (Fin 0)))"
    using assms(4) hdn by (intro py_max_default_is_max) auto
  have mx1: "event_severity ev \<in> severity ` set alerts"
    using mx sev by simp
  have mx2: "\<forall>a\<in>set alerts. \<not> fgt (severity a) (event_severity ev)"
    using mx sev by simp
  have det: "event_details ev = alerts"
    by (simp add: ev_def combined_alert_def Let_def)
  have hist: "detected_events s'
      = drop (length (detected_events s) + 1 - nat (max_event_history s)) (detected_events s @ [ev])"
    using bounded_append [OF assms(3), of "detected_events s @ [ev]"]
    by (simp add: s'_def)
  have la: "last_alert_time s' = Some (alert_now clk)" by (simp add: s'_def)
  have cnt: "alert_count_today s' = alert_count_today s + 1" by (simp add: s'_def)
  have len: "length calls = length (notification_callbacks s)"
    by (simp add: calls_def run_callbacks_length)
  have idx: "map inv_index calls = [0 ..< length (notification_callbacks s)]"
    by (simp add: calls_def run_callbacks_index)
  have evs: "\<forall>c\<in>set calls. inv_event c = ev"
    using run_callbacks_event by (auto simp: calls_def)
  have outs: "map inv_outcome calls = map (\<lambda>cb. cb (gate_view_of s') ev) (notification_callbacks s)"
    by (simp add: calls_def run_callbacks_outcome)
  show ?thesis
    apply (rule exI [of _ s'], rule exI [of _ ev], rule exI [of _ calls])
    apply (intro conjI)
    apply (fact h det mx1 mx2 hist la cnt len idx evs outs)+
    done
qed

theorem gate_dispatch_witness:
  "alert_count_today sample_detector < max_alerts_per_day sample_detector
   \<and> last_alert_time sample_detector = None
   \<and> 0 < max_event_history sample_detector
   \<and> [sample_alert] \<noteq> []
   \<and> severity sample_alert \<noteq> NaN
   \<and> (\<exists>s' ev calls.
         handle_alerts sample_detector (clock_at 10) [sample_alert] = (s', Some ev, calls)
         \<and> event_severity ev = Fin 0.5
         \<and> alert_count_today s' = 1
         \<and> last_alert_time s' = Some 12
         \<and> detected_events s' = [ev]
         \<and> map inv_index calls = [0, 1]
         \<and> map inv_outcome calls = [Raised ''sink down'', Returned])"
proof -
  have h1: "alert_count_today sample_detector < max_alerts_per_day sample_detector"
    by (simp add: sample_detector_def register_notification_callback_def init_def
        empty_config_def get_or_def)
  have h2: "last_alert_time sample_detector = None"
    by (simp add: sample_detector_def register_notification_callback_def init_def)
  have h3: "0 < max_event_history sample_detector"
    by (simp add: sample_detector_def register_notification_callback_def init_def)
  have h4: "[sample_alert] \<noteq> []" by simp
  have h5: "\<forall>a\<in>set [sample_alert]. severity a \<noteq> NaN"
    by (simp add: sample_alert_def)
  have cbs: "notification_callbacks sample_detector = [cb_fail, cb_ok]"
    by (simp add: sample_detector_def register_notification_callback_def init_def)
  have ev0: "detected_events sample_detector = []"
    by (simp add: sample_detector_def register_notification_callback_def init_def)
  have c0: "alert_count_today sample_detector = 0"
    by (simp add: sample_detector_def register_notification_callback_def init_def)
  have m0: "max_event_history sample_detector = 100"
    by (simp add: sample_detector_def register_notification_callback_def init_def)
  obtain s' ev calls where
    r: "handle_alerts sample_detector (clock_at 10) [sample_alert] = (s', Some ev, calls)"
    and "event_details ev = [sample_alert]"
    and sv: "event_severity ev \<in> severity ` set [sample_alert]"
    and "\<forall>a\<in>set [sample_alert]. \<not> fgt (severity a) (event_severity ev)"
    and hist: "detected_events s'
         = drop (length (detected_events sample_detector) + 1
                  - nat (max_event_history sample_detector))
             (detected_events sample_detector @ [ev])"
    and la: "last_alert_time s' = Some (alert_now (clock_at 10))"
    and cnt: "alert_count_today s' = alert_count_today sample_detector + 1"
    and "length calls = length (notification_callbacks sample_detector)"
    and idx: "map inv_index calls = [0 ..< length (notification_callbacks sample_detector)]"
    and "\<forall>c\<in>set calls. inv_event c = ev"
    and outs: "map inv_outcome calls
         = map (\<lambda>cb. cb (gate_view_of s') ev) (notification_callbacks sample_detector)"
    using gate_dispatch [OF h1 disjI1 [OF h2] h3 h4 h5, of "clock_at 10"]
    by (elim exE conjE) (rule that; assumption)
  have a: "event_severity ev = Fin 0.5" using sv by (simp add: sample_alert_def)
  have b: "alert_count_today s' = 1" using cnt c0 by simp
  have c: "last_alert_time s' = Some 12" using la by (simp add: clock_at_def)
  have d: "detected_events s' = [ev]" using hist ev0 m0 by simp
  have e: "map inv_index calls = [0, 1]" using idx cbs by (simp add: upt_rec)
  have f: "map inv_outcome calls = [Raised ''sink down'', Returned]"
    using outs cbs by (simp add: cb_ok_def cb_fail_def)
  have h5': "severity sample_alert \<noteq> NaN" by (simp add: sample_alert_def)
  show ?thesis
    apply (intro conjI)
         apply (fact h1 h2 h3 h4 h5')+
    apply (rule exI [of _ s'], rule exI [of _ ev], rule exI [of _ calls])
    apply (intro conjI)
          apply (fact r a b c d e f)+
    done
qed

subsection \<open>State updates and callbacks\<close>


lemma handle_alerts_calls:
  assumes "handle_alerts s clk alerts = (s', Some ev, calls)"
  shows "calls = run_callbacks (gate_view_of s') ev 0 (notification_callbacks s)"
proof -
  have "snd (snd (handle_alerts s clk alerts))
      = run_callbacks (gate_view_of (fst (handle_alerts s clk alerts)))
          (the (fst (snd (handle_alerts s clk alerts)))) 0 (notification_callbacks s)
    \<or> fst (snd (handle_alerts s clk alerts)) = None"
    by (simp add: handle_alerts_def Let_def)
  then show ?thesis using assms by simp
qed

text \<open>
  Claim C10. On a dispatched tick the history, \<open>last_alert_time\<close> and
  \<open>alert_count_today\<close> are updated before the first callback runs: every callback
  observes the updated values, and the values do not depend on the registered callbacks
  or on how they end, so they are in place even if every callback raises.
\<close>

theorem gate_state_before_callbacks:
  assumes "gate_open s clk" and "0 < max_event_history s"
  shows "\<exists>s' ev calls.
      handle_alerts (s\<lparr>notification_callbacks := cbs\<rparr>) clk alerts = (s', Some ev, calls)
      \<and> ev = combined_alert (event_now clk) alerts
      \<and> detected_events s'
          = drop (length (detected_events s) + 1 - nat (max_event_history s))
              (detected_events s @ [ev])
      \<and> last_alert_time s' = Some (alert_now clk)
      \<and> alert_count_today s' = alert_count_today s + 1
      \<and> length calls = length cbs
      \<and> (\<forall>c\<in>set calls.
            view_events (inv_view c) = detected_events s'
            \<and> view_last_alert (inv_view c) = Some (alert_now clk)
            \<and> view_count (inv_view c) = alert_count_today s + 1)"
proof -
  define s0 where "s0 = s\<lparr>notification_callbacks := cbs\<rparr>"
  define ev where "ev = combined_alert (event_now clk) alerts"
  define s' where "s' = s0\<lparr>detected_events :=
        (if max_event_history s0 < int (length (detected_events s0 @ [ev]))
         then py_slice_from (- max_event_history s0) (detected_events s0 @ [ev])
         else detected_events s0 @ [ev]),
      last_alert_time := Some (alert_now clk),
      alert_count_today := alert_count_today s0 + 1\<rparr>"
  define calls where "calls = run_callbacks (gate_view_of s') ev 0 (notification_callbacks s0)"
  have op: "gate_open s0 clk"
    using assms(1) by (simp add: gate_open_def s0_def split: option.splits)
  have h: "handle_alerts s0 clk alerts = (s', Some ev, calls)"
    using handle_alerts_dispatch [OF op, of alerts]
    by (simp add: Let_def ev_def s'_def calls_def)
  have m: "0 < max_event_history s0" using assms(2) by (simp add: s0_def)
  have hist: "detected_events s'
      = drop (length (detected_events s) + 1 - nat (max_event_history s)) (detected_events s @ [ev])"
    using bounded_append [OF m, of "detected_events s0 @ [ev]"]
    by (simp add: s'_def s0_def)
  have la: "last_alert_time s' = Some (alert_now clk)" by (simp add: s'_def)
  have cnt: "alert_count_today s' = alert_count_today s + 1" by (simp add: s'_def s0_def)
  have len: "length calls = length cbs"
    by (simp add: calls_def run_callbacks_length s0_def)
  have vw: "\<forall>c\<in>set calls. inv_view c = gate_view_of s'"
    using run_callbacks_event by (auto simp: calls_def)
  have obs: "\<forall>c\<in>set calls.
            view_events (inv_view c) = detected_events s'
            \<and> view_last_alert (inv_view c) = Some (alert_now clk)
            \<and> view_count (inv_view c) = alert_count_today s + 1"
    using vw la cnt by (simp add: gate_view_of_def)
  have e: "ev = combined_alert (event_now clk) alerts" by (simp add: ev_def)
  show ?thesis
    apply (rule exI [of _ s'], rule exI [of _ ev], rule exI [of _ calls])
    apply (intro conjI)
          apply (fact h [unfolded s0_def] e hist la cnt len obs)+
    done
qed

theorem gate_state_before_callbacks_witness:
  "gate_open (init empty_config 0) (clock_at 10)
   \<and> 0 < max_event_history (init empty_config 0)
   \<and> (\<exists>s' ev calls.
        handle_alerts ((init empty_config 0)\<lparr>notification_callbacks := [cb_fail, cb_fail]\<rparr>)
          (clock_at 10) [sample_alert] = (s', Some ev, calls)
        \<and> detected_events s' = [ev]
        \<and> last_alert_time s' = Some 12
        \<and> alert_count_today s' = 1
        \<and> map inv_outcome calls = [Raised ''sink down'', Raised ''sink down'']
        \<and> map (\<lambda>c. view_events (inv_view c)) calls = [[ev], [ev]]
        \<and> map (\<lambda>c. view_count (inv_view c)) calls = [1, 1])"
proof -
  define s where "s = init empty_config 0"
  have h1: "gate_open s (clock_at 10)"
    by (simp add: s_def gate_open_def init_def empty_config_def get_or_def)
  have h2: "0 < max_event_history s" by (simp add: s_def init_def)
  have ev0: "detected_events s = []" by (simp add: s_def init_def)
  have c0: "alert_count_today s = 0" by (simp add: s_def init_def)
  have m0: "max_event_history s = 100" by (simp add: s_def init_def)
  obtain s' ev calls where
    r: "handle_alerts (s\<lparr>notification_callbacks := [cb_fail, cb_fail]\<rparr>) (clock_at 10)
          [sample_alert] = (s', Some ev, calls)"
    and "ev = combined_alert (event_now (clock_at 10)) [sample_alert]"
    and hist: "detected_events s'
          = drop (length (detected_events s) + 1 - nat (max_event_history s))
              (detected_events s @ [ev])"
    and la: "last_alert_time s' = Some (alert_now (clock_at 10))"
    and cnt: "alert_count_today s' = alert_count_today s + 1"
    and len: "length calls = length [cb_fail, cb_fail]"
    and obs: "\<forall>c\<in>set calls.
            view_events (inv_view c) = detected_events s'
            \<and> view_last_alert (inv_view c) = Some (alert_now (clock_at 10))
            \<and> view_count (inv_view c) = alert_count_today s + 1"
    using gate_state_before_callbacks [OF h1 h2, of "[cb_fail, cb_fail]" "[sample_alert]"]
    by (elim exE conjE) (rule that; assumption)
  have d: "detected_events s' = [ev]" using hist ev0 m0 by simp
  have a: "last_alert_time s' = Some 12" using la by (simp add: clock_at_def)
  have b: "alert_count_today s' = 1" using cnt c0 by simp
  have "calls = run_callbacks (gate_view_of s') ev 0 [cb_fail, cb_fail]"
    using handle_alerts_calls [OF r] by simp
  then have "map inv_outcome calls = map (\<lambda>cb. cb (gate_view_of s') ev) [cb_fail, cb_fail]"
    by (simp only: run_callbacks_outcome)
  then have f: "map inv_outcome calls = [Raised ''sink down'', Raised ''sink down'']"
    by (simp add: cb_fail_def)
  obtain c1 c2 where cs: "calls = [c1, c2]"
    using len by (cases calls; cases "tl calls") auto
  have g1: "map (\<lambda>c. view_events (inv_view c)) calls = [[ev], [ev]]"
    using obs d cs by simp
  have g2: "map (\<lambda>c. view_count (inv_view c)) calls = [1, 1]"
    using obs c0 cs by simp
  show ?thesis
    unfolding s_def [symmetric]
    apply (intro conjI)
      apply (fact h1 h2)+
    apply (rule exI [of _ s'], rule exI [of _ ev], rule exI [of _ calls])
    apply (intro conjI)
          apply (fact r d a b f g1 g2)+
    done
qed

subsection \<open>Severity scorer\<close>

lemma py_clip: "x \<noteq> NaN \<Longrightarrow> py_min2 (Fin 1) (py_max2 (Fin 0) x) = spec_clip x"
  by (cases x) (auto simp: py_min2_def py_max2_def spec_clip_def flt_def)

lemma py_clip_fin:
  "py_min2 (Fin 1) (py_max2 (Fin 0) (Fin x)) = Fin (spec_clip_real x)"
  by (auto simp: py_min2_def py_max2_def spec_clip_real_def flt_def)

lemma py_clip_range:
  "\<exists>r. py_min2 (Fin 1) (py_max2 (Fin 0) x) = Fin r \<and> 0 \<le> r \<and> r \<le> 1"
  by (cases x) (auto simp: py_min2_def py_max2_def flt_def)

text \<open>
  Claim C3. For every threshold configuration the scorer clips to \<open>[0,1]\<close> the quotient
  \<open>(ratio - threshold) / (2 * threshold)\<close> for volatility,
  \<open>(ratio - threshold) / (3 * threshold)\<close> for volume and \<open>(change - t) / (1 - t)\<close> with
  \<open>t = 1 - correlation_threshold\<close> for correlation, wherever the quotient is a number
  (it is not for \<open>0/0\<close>); for finite values and non-zero denominators this is the
  formula over the reals. With the default thresholds a volatility ratio of 4.2 scores
  0.1, a volume ratio of 6.0 scores 1/15 and a correlation change of 0.20 scores
  0.05/0.85.
\<close>

theorem severity_formulas:
  "(fdiv (fsub v1 (Fin (volatility_threshold s))) (Fin (2 * volatility_threshold s)) \<noteq> NaN
      \<longrightarrow> calculate_severity s ''volatility'' v1
          = spec_clip (fdiv (fsub v1 (Fin (volatility_threshold s)))
                         (Fin (2 * volatility_threshold s))))
   \<and> (fdiv (fsub v2 (Fin (volume_threshold s))) (Fin (3 * volume_threshold s)) \<noteq> NaN
      \<longrightarrow> calculate_severity s ''volume'' v2
          = spec_clip (fdiv (fsub v2 (Fin (volume_threshold s)))
                         (Fin (3 * volume_threshold s))))
   \<and> (fdiv (fsub v3 (Fin (1 - correlation_threshold s)))
          (Fin (1 - (1 - correlation_threshold s))) \<noteq> NaN
      \<longrightarrow> calculate_severity s ''correlation'' v3
          = spec_clip (fdiv (fsub v3 (Fin (1 - correlation_threshold s)))
                         (Fin (1 - (1 - correlation_threshold s)))))
   \<and> (volatility_threshold s \<noteq> 0
      \<longrightarrow> calculate_severity s ''volatility'' (Fin r1)
          = Fin (spec_clip_real ((r1 - volatility_threshold s) / (2 * volatility_threshold s))))
   \<and> (volume_threshold s \<noteq> 0
      \<longrightarrow> calculate_severity s ''volume'' (Fin r2)
          = Fin (spec_clip_real ((r2 - volume_threshold s) / (3 * volume_threshold s))))
   \<and> (correlation_threshold s \<noteq> 0
      \<longrightarrow> calculate_severity s ''correlation'' (Fin r3)
          = Fin (spec_clip_real ((r3 - (1 - correlation_threshold s))
                                  / (1 - (1 - correlation_threshold s)))))
   \<and> calculate_severity (init empty_config now) ''volatility'' (Fin 4.2) = Fin 0.1
   \<and> calculate_severity (init empty_config now) ''volume'' (Fin 6.0) = Fin (1 / 15)
   \<and> calculate_severity (init empty_config now) ''correlation'' (Fin 0.20) = Fin (0.05 / 0.85)"
proof (intro conjI impI)
  assume "fdiv (fsub v1 (Fin (volatility_threshold s))) (Fin (2 * volatility_threshold s)) \<noteq> NaN"
  then show "calculate_severity s ''volatility'' v1
          = spec_clip (fdiv (fsub v1 (Fin (volatility_threshold s)))
                         (Fin (2 * volatility_threshold s)))"
    by (simp add: calculate_severity_def py_clip)
next
  assume "fdiv (fsub v2 (Fin (volume_threshold s))) (Fin (3 * volume_threshold s)) \<noteq> NaN"
  then show "calculate_severity s ''volume'' v2
          = spec_clip (fdiv (fsub v2 (Fin (volume_threshold s)))
                         (Fin (3 * volume_threshold s)))"
    by (simp add: calculate_severity_def py_clip)
next
  assume "fdiv (fsub v3 (Fin (1 - correlation_threshold s)))
          (Fin (1 - (1 - correlation_threshold s))) \<noteq> NaN"
  then show "calculate_severity s ''correlation'' v3
          = spec_clip (fdiv (fsub v3 (Fin (1 - correlation_threshold s)))
                         (Fin (1 - (1 - correlation_threshold s))))"
    by (simp add: calculate_severity_def py_clip Let_def)
next
  assume "volatility_threshold s \<noteq> 0"
  then show "calculate_severity s ''volatility'' (Fin r1)
          = Fin (spec_clip_real ((r1 - volatility_threshold s) / (2 * volatility_threshold s)))"
    by (simp add: calculate_severity_def fsub_def py_clip_fin)
next
  assume "volume_threshold s \<noteq> 0"
  then show "calculate_severity s ''volume'' (Fin r2)
          = Fin (spec_clip_real ((r2 - volume_threshold s) / (3 * volume_threshold s)))"
    by (simp add: calculate_severity_def fsub_def py_clip_fin)
next
  assume "correlation_threshold s \<noteq> 0"
  then show "calculate_severity s ''correlation'' (Fin r3)
          = Fin (spec_clip_real ((r3 - (1 - correlation_threshold s))
                                  / (1 - (1 - correlation_threshold s))))"
    by (simp add: calculate_severity_def fsub_def py_clip_fin Let_def)
next
  show "calculate_severity (init empty_config now) ''volatility'' (Fin 4.2) = Fin 0.1"
    by (simp add: calculate_severity_def init_def empty_config_def get_or_def fsub_def
        py_clip_fin spec_clip_real_def)
next
  show "calculate_severity (init empty_config now) ''volume'' (Fin 6.0) = Fin (1 / 15)"
    by (simp add: calculate_severity_def init_def empty_config_def get_or_def fsub_def
        py_clip_fin spec_clip_real_def)
next
  show "calculate_severity (init empty_config now) ''correlation'' (Fin 0.20) = Fin (0.05 / 0.85)"
    by (simp add: calculate_severity_def init_def empty_config_def get_or_def fsub_def
        py_clip_fin spec_clip_real_def Let_def)
qed

theorem severity_formulas_witness:
  "fdiv (fsub PInf (Fin (volatility_threshold (init empty_config 0))))
        (Fin (2 * volatility_threshold (init empty_config 0))) \<noteq> NaN
   \<and> calculate_severity (init empty_config 0) ''volatility'' PInf = Fin 1
   \<and> fdiv (fsub (Fin 20) (Fin (volume_threshold (init empty_config 0))))
        (Fin (3 * volume_threshold (init empty_config 0))) \<noteq> NaN
   \<and> calculate_severity (init empty_config 0) ''volume'' (Fin 20) = Fin 1
   \<and> fdiv (fsub (Fin 0.1) (Fin (1 - correlation_threshold (init empty_config 0))))
        (Fin (1 - (1 - correlation_threshold (init empty_config 0)))) \<noteq> NaN
   \<and> calculate_severity (init empty_config 0) ''correlation'' (Fin 0.1) = Fin 0
   \<and> volatility_threshold (init empty_config 0) \<noteq> 0
   \<and> calculate_severity (init empty_config 0) ''volatility'' (Fin 7) = Fin (1 / 2)
   \<and> volume_threshold (init empty_config 0) \<noteq> 0
   \<and> calculate_severity (init empty_config 0) ''volume'' (Fin 8) = Fin (1 / 5)
   \<and> correlation_threshold (init empty_config 0) \<noteq> 0
   \<and> calculate_severity (init empty_config 0) ''correlation'' (Fin 1) = Fin 1"
  using severity_formulas [of PInf "init empty_config 0" "Fin 20" "Fin 0.1" 7 8 1 0]
  by (simp add: init_def empty_config_def get_or_def fsub_def spec_clip_def
      spec_clip_real_def flt_def)

subsection \<open>Volatility and volume evaluators\<close>

lemma quotient_not_nan:
  assumes "fgt r (Fin t)" and "0 < k"
  shows "fdiv (fsub r (Fin t)) (Fin (k * t)) \<noteq> NaN"
proof (cases r)
  case (Fin a)
  then have "t < a" using assms(1) by simp
  then show ?thesis using Fin by (simp add: fsub_def inf_of_sign_def)
qed (use assms in \<open>simp_all add: fsub_def\<close>)

lemma volatility_alerts_for_symbol:
  "a \<in> set (volatility_alerts_for s now sy data) \<Longrightarrow> alert_symbol a = Some sy"
  by (auto simp: volatility_alerts_for_def Let_def split: option.splits if_splits)

lemma volume_alerts_for_symbol:
  "a \<in> set (volume_alerts_for s now sy data) \<Longrightarrow> alert_symbol a = Some sy"
  by (auto simp: volume_alerts_for_def Let_def split: option.splits if_splits)

lemma filter_other_symbol:
  assumes "\<And>a. a \<in> set xs \<Longrightarrow> alert_symbol a = Some sy'" and "sy' \<noteq> sy"
  shows "filter (\<lambda>a. alert_symbol a = Some sy) xs = []"
  using assms by (auto simp: filter_empty_conv)

lemma filter_same_symbol:
  assumes "\<And>a. a \<in> set xs \<Longrightarrow> alert_symbol a = Some sy"
  shows "filter (\<lambda>a. alert_symbol a = Some sy) xs = xs"
  using assms by (auto simp: filter_id_conv)

lemma check_volatility_absent:
  "sy \<notin> fst ` set current_data
   \<Longrightarrow> filter (\<lambda>a. alert_symbol a = Some sy) (check_volatility s now current_data) = []"
proof (induction current_data)
  case Nil
  then show ?case by simp
next
  case (Cons p rest)
  obtain sy' data' where p: "p = (sy', data')" by (cases p)
  have ne: "sy' \<noteq> sy" using Cons.prems p by auto
  have "filter (\<lambda>a. alert_symbol a = Some sy) (volatility_alerts_for s now sy' data') = []"
    using volatility_alerts_for_symbol ne by (rule filter_other_symbol)
  then show ?case using Cons p by simp
qed

lemma check_volatility_symbol:
  assumes "distinct (map fst current_data)" and "(sy, data) \<in> set current_data"
  shows "filter (\<lambda>a. alert_symbol a = Some sy) (check_volatility s now current_data)
     = volatility_alerts_for s now sy data"
  using assms
proof (induction current_data)
  case Nil
  then show ?case by simp
next
  case (Cons p rest)
  obtain sy' data' where p: "p = (sy', data')" by (cases p)
  show ?case
  proof (cases "sy' = sy")
    case True
    have d: "data' = data" using Cons.prems p True by (auto simp: image_iff)
    have "sy \<notin> fst ` set rest" using Cons.prems(1) p True by simp
    then have r: "filter (\<lambda>a. alert_symbol a = Some sy) (check_volatility s now rest) = []"
      by (rule check_volatility_absent)
    have "filter (\<lambda>a. alert_symbol a = Some sy) (volatility_alerts_for s now sy data)
        = volatility_alerts_for s now sy data"
      using volatility_alerts_for_symbol by (rule filter_same_symbol)
    then show ?thesis using p True d r by simp
  next
    case False
    have "filter (\<lambda>a. alert_symbol a = Some sy) (volatility_alerts_for s now sy' data') = []"
      using volatility_alerts_for_symbol False by (rule filter_other_symbol)
    moreover have "(sy, data) \<in> set rest" using Cons.prems(2) p False by auto
    moreover have "distinct (map fst rest)" using Cons.prems(1) by simp
    ultimately show ?thesis using Cons.IH p by simp
  qed
qed

lemma check_volume_absent:
  "sy \<notin> fst ` set current_data
   \<Longrightarrow> filter (\<lambda>a. alert_symbol a = Some sy) (check_volume s now current_data) = []"
proof (induction current_data)
  case Nil
  then show ?case by simp
next
  case (Cons p rest)
  obtain sy' data' where p: "p = (sy', data')" by (cases p)
  have ne: "sy' \<noteq> sy" using Cons.prems p by auto
  have "filter (\<lambda>a. alert_symbol a = Some sy) (volume_alerts_for s now sy' data') = []"
    using volume_alerts_for_symbol ne by (rule filter_other_symbol)
  then show ?case using Cons p by simp
qed

lemma check_volume_symbol:
  assumes "distinct (map fst current_data)" and "(sy, data) \<in> set current_data"
  shows "filter (\<lambda>a. alert_symbol a = Some sy) (check_volume s now current_data)
     = volume_alerts_for s now sy data"
  using assms
proof (induction current_data)
  case Nil
  then show ?case by simp
next
  case (Cons p rest)
  obtain sy' data' where p: "p = (sy', data')" by (cases p)
  show ?case
  proof (cases "sy' = sy")
    case True
    have d: "data' = data" using Cons.prems p True by (auto simp: image_iff)
    have "sy \<notin> fst ` set rest" using Cons.prems(1) p True by simp
    then have r: "filter (\<lambda>a. alert_symbol a = Some sy) (check_volume s now rest) = []"
      by (rule check_volume_absent)
    have "filter (\<lambda>a. alert_symbol a = Some sy) (volume_alerts_for s now sy data)
        = volume_alerts_for s now sy data"
      using volume_alerts_for_symbol by (rule filter_same_symbol)
    then show ?thesis using p True d r by simp
  next
    case False
    have "filter (\<lambda>a. alert_symbol a = Some sy) (volume_alerts_for s now sy' data') = []"
      using volume_alerts_for_symbol False by (rule filter_other_symbol)
    moreover have "(sy, data) \<in> set rest" using Cons.prems(2) p False by auto
    moreover have "distinct (map fst rest)" using Cons.prems(1) by simp
    ultimately show ?thesis using Cons.IH p by simp
  qed
qed

lemma volatility_alerts_for_eq:
  "volatility_alerts_for s now sy data =
     (case map_of (historical_stats s) sy of
        None \<Rightarrow> []
      | Some st \<Rightarrow>
          if fgt (volatility_ratio_of data st) (Fin (volatility_threshold s)) then
            [\<lparr>alert_type = ''volatility'', alert_symbol = Some sy, alert_timestamp = now,
              severity = spec_clip (fdiv (fsub (volatility_ratio_of data st)
                                            (Fin (volatility_threshold s)))
                                      (Fin (2 * volatility_threshold s))),
              details = [(''current_volatility'',
                            fmul (series_std (dropna (pct_change (col_close data))))
                              (Fin (sqrt 24))),
                         (''historical_volatility'', fmul (std_returns st) (Fin (sqrt 252))),
                         (''volatility_ratio'', volatility_ratio_of data st),
                         (''threshold'', Fin (volatility_threshold s))]\<rparr>]
          else [])"
proof (cases "map_of (historical_stats s) sy")
  case None
  then show ?thesis by (simp add: volatility_alerts_for_def Let_def)
next
  case (Some st)
  show ?thesis
  proof (cases "fgt (volatility_ratio_of data st) (Fin (volatility_threshold s))")
    case True
    have q: "fdiv (fsub (volatility_ratio_of data st) (Fin (volatility_threshold s)))
               (Fin (2 * volatility_threshold s)) \<noteq> NaN"
      using True by (rule quotient_not_nan) simp
    have "calculate_severity s ''volatility'' (volatility_ratio_of data st)
        = spec_clip (fdiv (fsub (volatility_ratio_of data st) (Fin (volatility_threshold s)))
                       (Fin (2 * volatility_threshold s)))"
      using q by (simp add: calculate_severity_def py_clip)
    then show ?thesis
      using Some True by (simp add: volatility_alerts_for_def volatility_ratio_of_def Let_def)
  next
    case False
    then show ?thesis
      using Some by (simp add: volatility_alerts_for_def volatility_ratio_of_def Let_def)
  qed
qed

lemma volume_alerts_for_eq:
  assumes "data \<noteq> []"
  shows "volume_alerts_for s now sy data =
     (case map_of (historical_stats s) sy of
        None \<Rightarrow> []
      | Some st \<Rightarrow>
          if fgt (volume_ratio_of data st) (Fin (volume_threshold s)) then
            [\<lparr>alert_type = ''volume'', alert_symbol = Some sy, alert_timestamp = now,
              severity = spec_clip (fdiv (fsub (volume_ratio_of data st)
                                            (Fin (volume_threshold s)))
                                      (Fin (3 * volume_threshold s))),
              details = [(''current_volume'', last (col_volume data)),
                         (''historical_avg_volume'', mean_volume st),
                         (''volume_ratio'', volume_ratio_of data st),
                         (''threshold'', Fin (volume_threshold s))]\<rparr>]
          else [])"
proof (cases "map_of (historical_stats s) sy")
  case None
  then show ?thesis using assms by (simp add: volume_alerts_for_def Let_def)
next
  case (Some st)
  show ?thesis
  proof (cases "fgt (volume_ratio_of data st) (Fin (volume_threshold s))")
    case True
    have q: "fdiv (fsub (volume_ratio_of data st) (Fin (volume_threshold s)))
               (Fin (3 * volume_threshold s)) \<noteq> NaN"
      using True by (rule quotient_not_nan) simp
    have "calculate_severity s ''volume'' (volume_ratio_of data st)
        = spec_clip (fdiv (fsub (volume_ratio_of data st) (Fin (volume_threshold s)))
                       (Fin (3 * volume_threshold s)))"
      using q by (simp add: calculate_severity_def py_clip)
    then show ?thesis
      using Some True assms by (simp add: volume_alerts_for_def volume_ratio_of_def Let_def)
  next
    case False
    then show ?thesis
      using Some assms by (simp add: volume_alerts_for_def volume_ratio_of_def Let_def)
  qed
qed

lemma sample_returns:
  "dropna (pct_change (col_close sample_frame)) = [Fin (1 / 10), Fin (- (1 / 10))]"
  by (simp add: sample_frame_def mk_bar_def col_close_def pct_change_def ffill_def dropna_def
      isna_def fsub_def)

lemma sample_std: "series_std [Fin (1 / 10), Fin (- (1 / 10))] = Fin (sqrt (2 / 100))"
  by (simp add: series_std_def dropna_def isna_def fsub_def Let_def power2_eq_square)

lemma sample_ratio:
  "volatility_ratio_of sample_frame sample_stats = Fin (sqrt (2 / 100) * sqrt 24 / (sqrt 252 / 100))"
  by (simp add: volatility_ratio_of_def Let_def sample_returns sample_std sample_stats_def)

lemma sample_ratio_gt: "7 / 2 < sqrt (2 / 100) * sqrt 24 / (sqrt 252 / 100)"
proof -
  have a: "sqrt (2 / 100) * sqrt 24 = sqrt (48 / 100)"
    by (simp add: real_sqrt_mult [symmetric])
  have "((7 / 2) * (sqrt 252 / 100))\<^sup>2 < (48 / 100 :: real)"
    by (simp add: power_mult_distrib power_divide)
  then have "(7 / 2) * (sqrt 252 / 100) < sqrt (48 / 100)"
    by (rule real_less_rsqrt)
  then have "(7 / 2) * (sqrt 252 / 100) < sqrt (2 / 100) * sqrt 24"
    using a by simp
  moreover have "0 < sqrt 252 / 100" by simp
  ultimately show ?thesis by (simp add: pos_less_divide_eq)
qed

lemma sample_ratio_fgt:
  "fgt (volatility_ratio_of sample_frame sample_stats) (Fin (volatility_threshold watching_detector))"
  using sample_ratio_gt
  by (simp add: sample_ratio watching_detector_def init_def empty_config_def get_or_def)

lemma exists_filter: "(\<exists>a\<in>set xs. P a) \<longleftrightarrow> filter P xs \<noteq> []"
  by (simp add: filter_empty_conv)

text \<open>
  Claim C4. For a symbol with current data, the volatility evaluator produces an alert
  for it exactly when the symbol has a baseline and the ratio of the standard deviation
  of its intraday returns times \<open>\<surd>24\<close> to the baseline standard deviation times
  \<open>\<surd>252\<close> exceeds \<open>volatility_threshold\<close>; the alert is of type volatility, there is
  at most one, and its severity is \<open>clip((ratio - threshold) / (2 * threshold), 0, 1)\<close>.
  A symbol without a baseline gets no volatility alert. The default threshold is 3.5.
\<close>

theorem volatility_alert_iff:
  assumes "distinct (map fst current_data)" and "(sy, data) \<in> set current_data"
  shows "((\<exists>a\<in>set (check_volatility s now current_data). alert_symbol a = Some sy)
          \<longleftrightarrow> (\<exists>st. map_of (historical_stats s) sy = Some st
                    \<and> fgt (volatility_ratio_of data st) (Fin (volatility_threshold s))))
     \<and> (\<forall>a\<in>set (check_volatility s now current_data).
           alert_symbol a = Some sy
           \<longrightarrow> alert_type a = ''volatility''
               \<and> (\<exists>st. map_of (historical_stats s) sy = Some st
                    \<and> severity a
                        = spec_clip (fdiv (fsub (volatility_ratio_of data st)
                                             (Fin (volatility_threshold s)))
                                       (Fin (2 * volatility_threshold s)))))
     \<and> length (filter (\<lambda>a. alert_symbol a = Some sy)
                 (check_volatility s now current_data)) \<le> 1
     \<and> (map_of (historical_stats s) sy = None
          \<longrightarrow> \<not> (\<exists>a\<in>set (check_volatility s now current_data). alert_symbol a = Some sy))
     \<and> volatility_threshold (init empty_config t0) = 3.5"
proof -
  have dflt: "volatility_threshold (init empty_config t0) = 3.5"
    by (simp add: init_def empty_config_def get_or_def)
  define out where
    "out = filter (\<lambda>a. alert_symbol a = Some sy) (check_volatility s now current_data)"
  have f: "out = volatility_alerts_for s now sy data"
    unfolding out_def using assms by (rule check_volatility_symbol)
  have e: "(\<exists>a\<in>set (check_volatility s now current_data). alert_symbol a = Some sy)
      \<longleftrightarrow> out \<noteq> []"
    unfolding out_def by (rule exists_filter)
  have 1: "out \<noteq> [] \<longleftrightarrow> (\<exists>st. map_of (historical_stats s) sy = Some st
                    \<and> fgt (volatility_ratio_of data st) (Fin (volatility_threshold s)))"
    unfolding f volatility_alerts_for_eq by (simp split: option.splits)
  have 2: "\<forall>a\<in>set out. alert_type a = ''volatility''
               \<and> (\<exists>st. map_of (historical_stats s) sy = Some st
                    \<and> severity a
                        = spec_clip (fdiv (fsub (volatility_ratio_of data st)
                                             (Fin (volatility_threshold s)))
                                       (Fin (2 * volatility_threshold s))))"
    unfolding f volatility_alerts_for_eq
    by (cases "map_of (historical_stats s) sy") auto
  have 3: "length out \<le> 1"
    unfolding f volatility_alerts_for_eq by (simp split: option.splits)
  have 4: "map_of (historical_stats s) sy = None \<longrightarrow> out = []"
    unfolding f volatility_alerts_for_eq by simp
  have two: "\<forall>a\<in>set (check_volatility s now current_data).
           alert_symbol a = Some sy
           \<longrightarrow> alert_type a = ''volatility''
               \<and> (\<exists>st. map_of (historical_stats s) sy = Some st
                    \<and> severity a
                        = spec_clip (fdiv (fsub (volatility_ratio_of data st)
                                             (Fin (volatility_threshold s)))
                                       (Fin (2 * volatility_threshold s))))"
    using 2 unfolding out_def by simp
  show ?thesis
    using e 1 two 3 4 dflt unfolding out_def [symmetric] by blast
qed

theorem volatility_alert_iff_witness:
  "distinct (map fst [(''BTC/USDT'', sample_frame)])
   \<and> (''BTC/USDT'', sample_frame) \<in> set [(''BTC/USDT'', sample_frame)]
   \<and> (\<exists>a. a \<in> set (check_volatility watching_detector 7 [(''BTC/USDT'', sample_frame)])
         \<and> alert_symbol a = Some ''BTC/USDT'' \<and> alert_type a = ''volatility'')"
proof -
  have h1: "distinct (map fst [(''BTC/USDT'', sample_frame)])" by simp
  have h2: "(''BTC/USDT'', sample_frame) \<in> set [(''BTC/USDT'', sample_frame)]" by simp
  have st: "map_of (historical_stats watching_detector) ''BTC/USDT'' = Some sample_stats"
    by (simp add: watching_detector_def)
  have rhs: "\<exists>st. map_of (historical_stats watching_detector) ''BTC/USDT'' = Some st
       \<and> fgt (volatility_ratio_of sample_frame st) (Fin (volatility_threshold watching_detector))"
    using st sample_ratio_fgt by blast
  note w = volatility_alert_iff [OF h1 h2, of watching_detector 7]
  have ex: "\<exists>a\<in>set (check_volatility watching_detector 7 [(''BTC/USDT'', sample_frame)]).
         alert_symbol a = Some ''BTC/USDT''"
    using w rhs by blast
  have ty: "\<forall>a\<in>set (check_volatility watching_detector 7 [(''BTC/USDT'', sample_frame)]).
         alert_symbol a = Some ''BTC/USDT'' \<longrightarrow> alert_type a = ''volatility''"
    using w by blast
  show ?thesis using h1 h2 ex ty by blast
qed

text \<open>
  Claim C5. For a symbol with current data, the volume evaluator produces an alert for
  it exactly when the ratio of the most recent bar's volume to the baseline mean volume
  (which needs a baseline) exceeds \<open>volume_threshold\<close>; the alert is of type volume,
  there is at most one, and its severity is
  \<open>clip((ratio - threshold) / (3 * threshold), 0, 1)\<close>. The default threshold is 5.0.
\<close>

theorem volume_alert_iff:
  assumes "distinct (map fst current_data)" and "(sy, data) \<in> set current_data"
    and "data \<noteq> []"
  shows "((\<exists>a\<in>set (check_volume s now current_data). alert_symbol a = Some sy)
          \<longleftrightarrow> (\<exists>st. map_of (historical_stats s) sy = Some st
                    \<and> fgt (volume_ratio_of data st) (Fin (volume_threshold s))))
     \<and> (\<forall>a\<in>set (check_volume s now current_data).
           alert_symbol a = Some sy
           \<longrightarrow> alert_type a = ''volume''
               \<and> (\<exists>st. map_of (historical_stats s) sy = Some st
                    \<and> severity a
                        = spec_clip (fdiv (fsub (volume_ratio_of data st)
                                             (Fin (volume_threshold s)))
                                       (Fin (3 * volume_threshold s)))))
     \<and> length (filter (\<lambda>a. alert_symbol a = Some sy)
                 (check_volume s now current_data)) \<le> 1
     \<and> volume_threshold (init empty_config t0) = 5.0"
proof -
  have dflt: "volume_threshold (init empty_config t0) = 5.0"
    by (simp add: init_def empty_config_def get_or_def)
  define out where
    "out = filter (\<lambda>a. alert_symbol a = Some sy) (check_volume s now current_data)"
  have f: "out = volume_alerts_for s now sy data"
    unfolding out_def using assms(1,2) by (rule check_volume_symbol)
  note eq = volume_alerts_for_eq [OF assms(3)]
  have e: "(\<exists>a\<in>set (check_volume s now current_data). alert_symbol a = Some sy)
      \<longleftrightarrow> out \<noteq> []"
    unfolding out_def by (rule exists_filter)
  have 1: "out \<noteq> [] \<longleftrightarrow> (\<exists>st. map_of (historical_stats s) sy = Some st
                    \<and> fgt (volume_ratio_of data st) (Fin (volume_threshold s)))"
    unfolding f eq by (simp split: option.splits)
  have 2: "\<forall>a\<in>set out. alert_type a = ''volume''
               \<and> (\<exists>st. map_of (historical_stats s) sy = Some st
                    \<and> severity a
                        = spec_clip (fdiv (fsub (volume_ratio_of data st)
                                             (Fin (volume_threshold s)))
                                       (Fin (3 * volume_threshold s))))"
    unfolding f eq
    by (cases "map_of (historical_stats s) sy") auto
  have 3: "length out \<le> 1"
    unfolding f eq by (simp split: option.splits)
  have two: "\<forall>a\<in>set (check_volume s now current_data).
           alert_symbol a = Some sy
           \<longrightarrow> alert_type a = ''volume''
               \<and> (\<exists>st. map_of (historical_stats s) sy = Some st
                    \<and> severity a
                        = spec_clip (fdiv (fsub (volume_ratio_of data st)
                                             (Fin (volume_threshold s)))
                                       (Fin (3 * volume_threshold s))))"
    using 2 unfolding out_def by simp
  show ?thesis
    using e 1 two 3 dflt unfolding out_def [symmetric] by blast
qed

lemma sample_volume_ratio: "volume_ratio_of sample_frame sample_stats = Fin 10"
  by (simp add: volume_ratio_of_def sample_frame_def sample_stats_def col_volume_def mk_bar_def)

theorem volume_alert_iff_witness:
  "distinct (map fst [(''BTC/USDT'', sample_frame)])
   \<and> (''BTC/USDT'', sample_frame) \<in> set [(''BTC/USDT'', sample_frame)]
   \<and> sample_frame \<noteq> []
   \<and> (\<exists>a. a \<in> set (check_volume watching_detector 7 [(''BTC/USDT'', sample_frame)])
         \<and> alert_symbol a = Some ''BTC/USDT'' \<and> alert_type a = ''volume''
         \<and> severity a = Fin (1 / 3))"
proof -
  have h1: "distinct (map fst [(''BTC/USDT'', sample_frame)])" by simp
  have h2: "(''BTC/USDT'', sample_frame) \<in> set [(''BTC/USDT'', sample_frame)]" by simp
  have h3: "sample_frame \<noteq> []" by (simp add: sample_frame_def)
  have st: "map_of (historical_stats watching_detector) ''BTC/USDT'' = Some sample_stats"
    by (simp add: watching_detector_def)
  have th: "volume_threshold watching_detector = 5"
    by (simp add: watching_detector_def init_def empty_config_def get_or_def)
  have rhs: "\<exists>st. map_of (historical_stats watching_detector) ''BTC/USDT'' = Some st
       \<and> fgt (volume_ratio_of sample_frame st) (Fin (volume_threshold watching_detector))"
    using st by (simp add: sample_volume_ratio th)
  note w = volume_alert_iff [OF h1 h2 h3, of watching_detector 7]
  have ex: "\<exists>a\<in>set (check_volume watching_detector 7 [(''BTC/USDT'', sample_frame)]).
         alert_symbol a = Some ''BTC/USDT''"
    using w rhs by blast
  have c: "spec_clip (fdiv (fsub (volume_ratio_of sample_frame sample_stats)
                 (Fin (volume_threshold watching_detector)))
              (Fin (3 * volume_threshold watching_detector))) = Fin (1 / 3)"
    by (simp add: sample_volume_ratio th fsub_def spec_clip_def flt_def)
  have ty: "\<forall>a\<in>set (check_volume watching_detector 7 [(''BTC/USDT'', sample_frame)]).
         alert_symbol a = Some ''BTC/USDT''
         \<longrightarrow> alert_type a = ''volume'' \<and> severity a = Fin (1 / 3)"
    using w st c by auto
  show ?thesis using h1 h2 h3 ex ty by blast
qed

subsection \<open>Sample correlation tables\<close>











subsection \<open>What the operations leave alone\<close>

lemma handle_alerts_fields:
  "correlation_matrix (fst (handle_alerts s clk alerts)) = correlation_matrix s
   \<and> historical_data (fst (handle_alerts s clk alerts)) = historical_data s
   \<and> max_event_history (fst (handle_alerts s clk alerts)) = max_event_history s
   \<and> reset_date (fst (handle_alerts s clk alerts)) = reset_date s"
  by (simp add: handle_alerts_def Let_def)

lemma check_market_conditions_fields:
  "correlation_matrix (fst (check_market_conditions s clk fetch)) = correlation_matrix s
   \<and> historical_data (fst (check_market_conditions s clk fetch)) = historical_data s
   \<and> max_event_history (fst (check_market_conditions s clk fetch)) = max_event_history s
   \<and> reset_date (fst (check_market_conditions s clk fetch)) = reset_date s"
  using check_market_conditions_cases [of s clk fetch] handle_alerts_fields [of s "gate_clk clk"]
  by (elim disjE exE conjE) simp_all


lemma monitoring_iteration_state:
  "fst (monitoring_iteration s clk fetch)
     = (fst (check_market_conditions (reset_if_new_day s (date_now clk)) clk fetch))
         \<lparr>last_check_time := Some (checked_now clk)\<rparr>"
  by (simp add: monitoring_iteration_def Let_def split: prod.splits)


lemma manual_check_state: "fst (manual_check s clk fetch sy) = s"
  by (simp add: manual_check_def Let_def split: fetch_result.splits)

lemma manual_check_calls: "fst (snd (manual_check s clk fetch sy)) = []"
  by (simp add: manual_check_def Let_def split: fetch_result.splits)




subsection \<open>Invariants of the reachable states\<close>







subsection \<open>Bounded event history\<close>



subsection \<open>Correlation-breakdown evaluator\<close>

lemma check_correlation_breakdown_eq:
  "check_correlation_breakdown s now cd =
     (if length cd < 2 then []
      else case correlation_matrix s of
             None \<Rightarrow> []
           | Some baseline \<Rightarrow>
               if fgt (correlation_change_of cd baseline) (Fin (1 - correlation_threshold s))
               then [\<lparr>alert_type = ''correlation'', alert_symbol = None, alert_timestamp = now,
                      severity = calculate_severity s ''correlation''
                                   (correlation_change_of cd baseline),
                      details = [(''correlation_change'', correlation_change_of cd baseline),
                                 (''threshold'', Fin (1 - correlation_threshold s))]\<rparr>]
               else [])"
  by (simp add: check_correlation_breakdown_def correlation_change_of_def Let_def
      split: option.splits)




subsection \<open>Manual check\<close>

lemma manual_check_success:
  assumes "data_pipeline s" and "fetch (base_symbol sy) = FetchFrame data" and "data \<noteq> []"
  shows "\<exists>r. snd (snd (manual_check s clk fetch sy)) = CheckSuccess r
     \<and> res_alerts r = check_volatility s (m_eval_now clk) [(sy, data)]
                        @ check_volume s (m_eval_now clk) [(sy, data)]"
  using assms by (simp add: manual_check_def Let_def)

lemma sample_volume_alert:
  assumes "historical_stats s = [(''BTC/USDT'', sample_stats)]" and "volume_threshold s = 5"
  shows "check_volume s now [(''BTC/USDT'', sample_frame)] \<noteq> []"
proof -
  have ne: "sample_frame \<noteq> []" by (simp add: sample_frame_def)
  show ?thesis
    using assms by (simp add: volume_alerts_for_eq [OF ne] sample_volume_ratio)
qed

text \<open>
  Claim C8. A manual check returns the detector as it was (so \<open>alert_count_today\<close>,
  \<open>last_alert_time\<close> and the event history are untouched) and invokes no callback,
  whatever its evaluation finds. When it succeeds with at least one alert and the gate
  would suppress, the result has \<open>notification_suppressed = True\<close> and the reason is
  \<open>daily_limit\<close> if the daily count has reached \<open>max_alerts_per_day\<close> and \<open>cooldown\<close>
  otherwise.
\<close>

theorem manual_check_frame:
  "fst (manual_check s clk fetch sy) = s
   \<and> fst (snd (manual_check s clk fetch sy)) = []
   \<and> (snd (snd (manual_check s clk fetch sy)) = CheckSuccess r \<and> res_alerts r \<noteq> []
        \<and> (max_alerts_per_day s \<le> alert_count_today s
            \<or> (\<exists>t. last_alert_time s = Some t
                   \<and> m_gate_now clk < t + timedelta_minutes (alert_cooldown_minutes s)))
       \<longrightarrow> notification_suppressed r = Some True
           \<and> suppression_reason r
               = Some (if max_alerts_per_day s \<le> alert_count_today s
                       then ''daily_limit'' else ''cooldown''))"
proof (intro conjI impI)
  show "fst (manual_check s clk fetch sy) = s" by (rule manual_check_state)
next
  show "fst (snd (manual_check s clk fetch sy)) = []" by (rule manual_check_calls)
next
  assume a: "snd (snd (manual_check s clk fetch sy)) = CheckSuccess r \<and> res_alerts r \<noteq> []
        \<and> (max_alerts_per_day s \<le> alert_count_today s
            \<or> (\<exists>t. last_alert_time s = Some t
                   \<and> m_gate_now clk < t + timedelta_minutes (alert_cooldown_minutes s)))"
  then have sup: "max_alerts_per_day s \<le> alert_count_today s
            \<or> (case last_alert_time s of None \<Rightarrow> False
                | Some t \<Rightarrow> m_gate_now clk < t + timedelta_minutes (alert_cooldown_minutes s))"
    by auto
  have r: "snd (snd (manual_check s clk fetch sy)) = CheckSuccess r" and ne: "res_alerts r \<noteq> []"
    using a by simp_all
  have res: "notification_suppressed r = Some True
           \<and> suppression_reason r
               = Some (if max_alerts_per_day s \<le> alert_count_today s
                       then ''daily_limit'' else ''cooldown'')"
  proof (cases "data_pipeline s")
    case False
    then show ?thesis using r by (simp add: manual_check_def)
  next
    case True
    show ?thesis
    proof (cases "fetch (base_symbol sy)")
      case FetchNone
      then show ?thesis using r True by (simp add: manual_check_def)
    next
      case (FetchRaises e)
      then show ?thesis using r True by (simp add: manual_check_def)
    next
      case (FetchFrame data)
      show ?thesis
      proof (cases "data = []")
        case True
        then show ?thesis using r FetchFrame \<open>data_pipeline s\<close> by (simp add: manual_check_def)
      next
        case False
        define alerts where "alerts = check_volatility s (m_eval_now clk) [(sy, data)]
                        @ check_volume s (m_eval_now clk) [(sy, data)]"
        show ?thesis
        proof (cases "alerts = []")
          case True
          then have "res_alerts r = []"
            using r FetchFrame False \<open>data_pipeline s\<close>
            by (auto simp: manual_check_def Let_def alerts_def split: if_splits)
          then show ?thesis using ne by simp
        next
          case ane: False
          then show ?thesis
            using r FetchFrame False \<open>data_pipeline s\<close> sup
            by (auto simp: manual_check_def Let_def alerts_def split: if_splits)
        qed
      qed
    qed
  qed
  show "notification_suppressed r = Some True" using res by simp
  show "suppression_reason r
               = Some (if max_alerts_per_day s \<le> alert_count_today s
                       then ''daily_limit'' else ''cooldown'')" using res by simp
qed

theorem manual_check_frame_witness:
  "\<exists>r. snd (snd (manual_check limit_detector (manual_clock_at 7) sample_pipeline ''BTC/USDT''))
         = CheckSuccess r
     \<and> res_alerts r \<noteq> []
     \<and> max_alerts_per_day limit_detector \<le> alert_count_today limit_detector
     \<and> notification_suppressed r = Some True
     \<and> suppression_reason r = Some ''daily_limit''
     \<and> fst (manual_check limit_detector (manual_clock_at 7) sample_pipeline ''BTC/USDT'')
         = limit_detector
     \<and> fst (snd (manual_check limit_detector (manual_clock_at 7) sample_pipeline ''BTC/USDT''))
         = []"
proof -
  have p: "data_pipeline limit_detector"
    by (simp add: limit_detector_def watching_detector_def)
  have f: "sample_pipeline (base_symbol ''BTC/USDT'') = FetchFrame sample_frame"
    by (simp add: sample_pipeline_def base_symbol_def)
  have ne: "sample_frame \<noteq> []" by (simp add: sample_frame_def)
  obtain r where
    r: "snd (snd (manual_check limit_detector (manual_clock_at 7) sample_pipeline ''BTC/USDT''))
          = CheckSuccess r"
    and ra: "res_alerts r
          = check_volatility limit_detector (m_eval_now (manual_clock_at 7))
              [(''BTC/USDT'', sample_frame)]
            @ check_volume limit_detector (m_eval_now (manual_clock_at 7))
              [(''BTC/USDT'', sample_frame)]"
    using manual_check_success [where s = limit_detector and fetch = sample_pipeline
        and sy = "''BTC/USDT''" and data = sample_frame and clk = "manual_clock_at 7", OF p f ne]
    by blast
  have hs: "historical_stats limit_detector = [(''BTC/USDT'', sample_stats)]"
    by (simp add: limit_detector_def watching_detector_def)
  have vt: "volume_threshold limit_detector = 5"
    by (simp add: limit_detector_def watching_detector_def init_def empty_config_def get_or_def)
  have al: "res_alerts r \<noteq> []"
    using ra sample_volume_alert [OF hs vt] by simp
  have lim: "max_alerts_per_day limit_detector \<le> alert_count_today limit_detector"
    by (simp add: limit_detector_def watching_detector_def init_def empty_config_def get_or_def)
  note w = manual_check_frame [of limit_detector "manual_clock_at 7" sample_pipeline
      "''BTC/USDT''" r]
  have a: "notification_suppressed r = Some True" using w r al lim by blast
  have b: "suppression_reason r = Some ''daily_limit''" using w r al lim by simp
  have c: "fst (manual_check limit_detector (manual_clock_at 7) sample_pipeline ''BTC/USDT'')
         = limit_detector" using w by blast
  have d: "fst (snd (manual_check limit_detector (manual_clock_at 7) sample_pipeline ''BTC/USDT''))
         = []" using w by blast
  show ?thesis using r al lim a b c d by blast
qed

subsection \<open>Daily reset\<close>

lemma handle_alerts_count:
  "alert_count_today (fst (handle_alerts s clk alerts)) = alert_count_today s
   \<or> alert_count_today (fst (handle_alerts s clk alerts)) = alert_count_today s + 1"
  by (simp add: handle_alerts_def Let_def)

lemma check_market_conditions_count:
  "alert_count_today (fst (check_market_conditions s clk fetch)) = alert_count_today s
   \<or> alert_count_today (fst (check_market_conditions s clk fetch)) = alert_count_today s + 1"
  using check_market_conditions_cases [of s clk fetch] handle_alerts_count [of s "gate_clk clk"]
  by (elim disjE exE conjE) simp_all

theorem reset_on_different_date_counterexample:
  "date_of (date_now (tick_clock_at 0)) \<noteq> reset_date day1_detector
   \<and> alert_count_today (fst (monitoring_iteration day1_detector (tick_clock_at 0) sample_pipeline)) = 2
   \<and> reset_date (fst (monitoring_iteration day1_detector (tick_clock_at 0) sample_pipeline)) = 1"
  by (simp add: monitoring_iteration_def reset_if_new_day_def check_market_conditions_def
      day1_detector_def tick_clock_at_def init_def date_of_def Let_def)

text \<open>
  Claim C9, amended. At the head of every loop iteration, before the evaluation tick,
  the date of the clock is compared with \<open>reset_date\<close>: if it is later, the counter is
  set to 0 and \<open>reset_date\<close> to that date, otherwise nothing is reset. The tick leaves
  \<open>reset_date\<close> alone and keeps the counter or adds one, so no other step of the loop
  resets the counter, and a further iteration on the same date resets nothing.
\<close>

theorem daily_reset:
  "fst (monitoring_iteration s clk fetch)
     = (fst (check_market_conditions (reset_if_new_day s (date_now clk)) clk fetch))
         \<lparr>last_check_time := Some (checked_now clk)\<rparr>
   \<and> (reset_date sa < date_of (date_now clka)
        \<longrightarrow> reset_if_new_day sa (date_now clka)
            = sa\<lparr>alert_count_today := 0, reset_date := date_of (date_now clka)\<rparr>)
   \<and> (\<not> reset_date sb < date_of (date_now clkb)
        \<longrightarrow> reset_if_new_day sb (date_now clkb) = sb)
   \<and> reset_date (fst (check_market_conditions s clk fetch)) = reset_date s
   \<and> (alert_count_today (fst (check_market_conditions s clk fetch)) = alert_count_today s
       \<or> alert_count_today (fst (check_market_conditions s clk fetch))
           = alert_count_today s + 1)
   \<and> (reset_date sa < date_of (date_now clka)
        \<and> date_of (date_now clk2) = date_of (date_now clka)
        \<longrightarrow> reset_if_new_day (fst (monitoring_iteration sa clka fetcha)) (date_now clk2)
            = fst (monitoring_iteration sa clka fetcha))"
proof (intro conjI impI)
  show "fst (monitoring_iteration s clk fetch)
     = (fst (check_market_conditions (reset_if_new_day s (date_now clk)) clk fetch))
         \<lparr>last_check_time := Some (checked_now clk)\<rparr>"
    by (rule monitoring_iteration_state)
next
  assume "reset_date sa < date_of (date_now clka)"
  then show "reset_if_new_day sa (date_now clka)
            = sa\<lparr>alert_count_today := 0, reset_date := date_of (date_now clka)\<rparr>"
    by (simp add: reset_if_new_day_def Let_def)
next
  assume "\<not> reset_date sb < date_of (date_now clkb)"
  then show "reset_if_new_day sb (date_now clkb) = sb"
    by (simp add: reset_if_new_day_def Let_def)
next
  show "reset_date (fst (check_market_conditions s clk fetch)) = reset_date s"
    by (simp add: check_market_conditions_fields)
next
  show "alert_count_today (fst (check_market_conditions s clk fetch)) = alert_count_today s
       \<or> alert_count_today (fst (check_market_conditions s clk fetch))
           = alert_count_today s + 1"
    by (rule check_market_conditions_count)
next
  assume a: "reset_date sa < date_of (date_now clka)
        \<and> date_of (date_now clk2) = date_of (date_now clka)"
  have "reset_date (fst (monitoring_iteration sa clka fetcha)) = date_of (date_now clka)"
    using a by (simp add: monitoring_iteration_state check_market_conditions_fields
        reset_if_new_day_def Let_def)
  then show "reset_if_new_day (fst (monitoring_iteration sa clka fetcha)) (date_now clk2)
            = fst (monitoring_iteration sa clka fetcha)"
    using a by (simp add: reset_if_new_day_def Let_def)
qed

theorem daily_reset_witness:
  "reset_date limit_detector < date_of (date_now (tick_clock_at 86400000000))
   \<and> reset_if_new_day limit_detector (date_now (tick_clock_at 86400000000))
       = limit_detector\<lparr>alert_count_today := 0, reset_date := 1\<rparr>
   \<and> \<not> reset_date day1_detector < date_of (date_now (tick_clock_at 0))
   \<and> reset_if_new_day day1_detector (date_now (tick_clock_at 0)) = day1_detector
   \<and> date_of (date_now (tick_clock_at 86400000300)) = date_of (date_now (tick_clock_at 86400000000))
   \<and> reset_if_new_day
        (fst (monitoring_iteration limit_detector (tick_clock_at 86400000000) sample_pipeline))
        (date_now (tick_clock_at 86400000300))
       = fst (monitoring_iteration limit_detector (tick_clock_at 86400000000) sample_pipeline)"
proof -
  have d1: "date_of (date_now (tick_clock_at 86400000000)) = 1"
    by (simp add: tick_clock_at_def date_of_def)
  have d2: "date_of (date_now (tick_clock_at 86400000300)) = 1"
    by (simp add: tick_clock_at_def date_of_def)
  have d0: "date_of (date_now (tick_clock_at 0)) = 0"
    by (simp add: tick_clock_at_def date_of_def)
  have r0: "reset_date limit_detector = 0"
    by (simp add: limit_detector_def watching_detector_def init_def date_of_def)
  have r1: "reset_date day1_detector = 1"
    by (simp add: day1_detector_def init_def date_of_def)
  have h1: "reset_date limit_detector < date_of (date_now (tick_clock_at 86400000000))"
    using d1 r0 by simp
  have h2: "\<not> reset_date day1_detector < date_of (date_now (tick_clock_at 0))"
    using d0 r1 by simp
  have h3: "date_of (date_now (tick_clock_at 86400000300))
      = date_of (date_now (tick_clock_at 86400000000))"
    using d1 d2 by simp
  note w = daily_reset [of limit_detector "tick_clock_at 86400000000" sample_pipeline
      limit_detector "tick_clock_at 86400000000" day1_detector "tick_clock_at 0"
      "tick_clock_at 86400000300" sample_pipeline]
  have a: "reset_if_new_day limit_detector (date_now (tick_clock_at 86400000000))
       = limit_detector\<lparr>alert_count_today := 0, reset_date := 1\<rparr>"
    using w h1 d1 by simp
  have b: "reset_if_new_day day1_detector (date_now (tick_clock_at 0)) = day1_detector"
    using w h2 by blast
  have c: "reset_if_new_day
        (fst (monitoring_iteration limit_detector (tick_clock_at 86400000000) sample_pipeline))
        (date_now (tick_clock_at 86400000300))
       = fst (monitoring_iteration limit_detector (tick_clock_at 86400000000) sample_pipeline)"
    using w h1 h3 by blast
  show ?thesis using h1 a h2 b h3 c by blast
qed

subsection \<open>The alerts of a tick\<close>

text \<open>
  The inputs the evaluators get on a tick are well formed: the symbols of
  \<open>current_data\<close> are distinct and every frame has at least one bar. Every alert of a tick
  has a severity between 0 and 1, so the gate's maximum is taken over numbers.
\<close>

lemma calculate_severity_range:
  "\<exists>r. calculate_severity s ty v = Fin r \<and> 0 \<le> r \<and> r \<le> 1"
  using py_clip_range by (auto simp: calculate_severity_def Let_def)

lemma calculate_severity_not_nan: "calculate_severity s ty v \<noteq> NaN"
  using calculate_severity_range [of s ty v] by auto

lemma volatility_alerts_for_severity:
  "a \<in> set (volatility_alerts_for s now sy data) \<Longrightarrow> severity a \<noteq> NaN"
  by (auto simp: volatility_alerts_for_def Let_def calculate_severity_not_nan
      split: option.splits if_splits)

lemma volume_alerts_for_severity:
  "a \<in> set (volume_alerts_for s now sy data) \<Longrightarrow> severity a \<noteq> NaN"
  by (auto simp: volume_alerts_for_def Let_def calculate_severity_not_nan
      split: option.splits if_splits)

lemma check_volatility_severity:
  "a \<in> set (check_volatility s now current_data) \<Longrightarrow> severity a \<noteq> NaN"
  by (induction current_data) (auto dest: volatility_alerts_for_severity)

lemma check_volume_severity:
  "a \<in> set (check_volume s now current_data) \<Longrightarrow> severity a \<noteq> NaN"
  by (induction current_data) (auto dest: volume_alerts_for_severity)

lemma check_correlation_breakdown_severity:
  "a \<in> set (check_correlation_breakdown s now current_data) \<Longrightarrow> severity a \<noteq> NaN"
  by (auto simp: check_correlation_breakdown_eq calculate_severity_not_nan
      split: option.splits if_splits)

lemma tick_alerts_severity:
  "a \<in> set (tick_alerts s now current_data) \<Longrightarrow> severity a \<noteq> NaN"
  by (auto simp: tick_alerts_def dest: check_volatility_severity check_volume_severity
      check_correlation_breakdown_severity)

lemma collect_current_data_well_formed:
  assumes "collect_current_data fetch syms acc = Some current_data"
    and "distinct (map fst acc)" and "[] \<notin> snd ` set acc"
  shows "distinct (map fst current_data) \<and> [] \<notin> snd ` set current_data"
  using assms
proof (induction syms arbitrary: acc)
  case Nil
  then show ?case by simp
next
  case (Cons sy rest)
  show ?case
  proof (cases "fetch (base_symbol sy)")
    case FetchNone
    then show ?thesis using Cons by simp
  next
    case (FetchRaises e)
    then show ?thesis using Cons.prems by simp
  next
    case (FetchFrame data)
    show ?thesis
    proof (cases "data = []")
      case True
      then show ?thesis using FetchFrame Cons by simp
    next
      case False
      have c: "collect_current_data fetch rest (AList.update sy data acc) = Some current_data"
        using Cons.prems(1) FetchFrame False by simp
      have d: "distinct (map fst (AList.update sy data acc))"
        using Cons.prems(2) by (simp add: distinct_update)
      have "set (AList.update sy data acc) \<subseteq> insert (sy, data) (set acc)"
        by (induction acc) auto
      then have e: "[] \<notin> snd ` set (AList.update sy data acc)"
        using Cons.prems(3) False by fastforce
      show ?thesis using Cons.IH [OF c d e] .
    qed
  qed
qed

end
